theory Spec2Isabelle
  imports Complex_Main
begin

section \<open>Python values\<close>

text \<open>
  The values the call engine handles: keyword arguments supplied by a caller and values
  decoded from a JSON response. Dictionaries keep their insertion order and have string
  keys (keyword arguments and JSON objects both do). \<open>PObject n\<close> is any object whose
  type, named \<open>n\<close>, is not a subclass of \<open>bool\<close>, \<open>int\<close>, \<open>float\<close>, \<open>str\<close>, \<open>list\<close>,
  \<open>tuple\<close> or \<open>dict\<close>. A float is carried as the real number it stands for.
\<close>

datatype pyval =
    PNone
  | PBool bool
  | PInt int
  | PFloat real
  | PStr string
  | PList "pyval list"
  | PTuple "pyval list"
  | PDict "(string \<times> pyval) list"
  | PObject string

type_synonym pydict = "(string \<times> pyval) list"

text \<open>\<open>type(v).__name__\<close>.\<close>

fun type_name :: "pyval \<Rightarrow> string" where
  "type_name PNone = ''NoneType''"
| "type_name (PBool b) = ''bool''"
| "type_name (PInt i) = ''int''"
| "type_name (PFloat r) = ''float''"
| "type_name (PStr s) = ''str''"
| "type_name (PList xs) = ''list''"
| "type_name (PTuple xs) = ''tuple''"
| "type_name (PDict kvs) = ''dict''"
| "type_name (PObject n) = n"

text \<open>\<open>isinstance(v, T)\<close> for the builtin types; \<open>bool\<close> is a subclass of \<open>int\<close>.\<close>

fun isinstance_bool :: "pyval \<Rightarrow> bool" where
  "isinstance_bool (PBool b) = True"
| "isinstance_bool v = False"

fun isinstance_int :: "pyval \<Rightarrow> bool" where
  "isinstance_int (PBool b) = True"
| "isinstance_int (PInt i) = True"
| "isinstance_int v = False"

fun isinstance_float :: "pyval \<Rightarrow> bool" where
  "isinstance_float (PFloat r) = True"
| "isinstance_float v = False"

fun isinstance_str :: "pyval \<Rightarrow> bool" where
  "isinstance_str (PStr s) = True"
| "isinstance_str v = False"

fun isinstance_list :: "pyval \<Rightarrow> bool" where
  "isinstance_list (PList xs) = True"
| "isinstance_list v = False"

fun isinstance_tuple :: "pyval \<Rightarrow> bool" where
  "isinstance_tuple (PTuple xs) = True"
| "isinstance_tuple v = False"

fun isinstance_dict :: "pyval \<Rightarrow> bool" where
  "isinstance_dict (PDict kvs) = True"
| "isinstance_dict v = False"

text \<open>
  Whether \<open>json.dumps\<close> accepts the value (tuples are written as arrays; any other
  object raises \<open>TypeError\<close>), and whether the value can be hashed (lists and
  dictionaries cannot, and a tuple only when its members can).
\<close>

fun json_serialisable :: "pyval \<Rightarrow> bool" where
  "json_serialisable (PList xs) = list_all json_serialisable xs"
| "json_serialisable (PTuple xs) = list_all json_serialisable xs"
| "json_serialisable (PDict kvs) = list_all (\<lambda>kv. json_serialisable (snd kv)) kvs"
| "json_serialisable (PObject n) = False"
| "json_serialisable v = True"

fun hashable :: "pyval \<Rightarrow> bool" where
  "hashable (PList xs) = False"
| "hashable (PDict kvs) = False"
| "hashable (PTuple xs) = list_all hashable xs"
| "hashable v = True"

subsection \<open>Strings\<close>

text \<open>\<open>str(n)\<close> for an integer, \<open>sep.join(xs)\<close>, \<open>s.lower()\<close> on ASCII, and \<open>a in b\<close>
  for strings.\<close>

fun str_nat :: "nat \<Rightarrow> string" where
  "str_nat n =
     (if n < 10 then [''0123456789'' ! n]
      else str_nat (n div 10) @ [''0123456789'' ! (n mod 10)])"

declare str_nat.simps [simp del]

definition str_int :: "int \<Rightarrow> string" where
  "str_int i = (if i < 0 then ''-'' @ str_nat (nat (- i)) else str_nat (nat i))"

fun str_join :: "string \<Rightarrow> string list \<Rightarrow> string" where
  "str_join sep [] = []"
| "str_join sep [x] = x"
| "str_join sep (x # y # ys) = x @ sep @ str_join sep (y # ys)"

definition ascii_lower :: "char \<Rightarrow> char" where
  "ascii_lower c =
     (case map_of (zip ''ABCDEFGHIJKLMNOPQRSTUVWXYZ'' ''abcdefghijklmnopqrstuvwxyz'') c of
        Some l \<Rightarrow> l
      | None \<Rightarrow> c)"

definition str_lower :: "string \<Rightarrow> string" where
  "str_lower s = map ascii_lower s"

fun starts_with :: "string \<Rightarrow> string \<Rightarrow> bool" where
  "starts_with [] s = True"
| "starts_with (p # ps) [] = False"
| "starts_with (p # ps) (c # cs) = (p = c \<and> starts_with ps cs)"

fun str_contains :: "string \<Rightarrow> string \<Rightarrow> bool" where
  "str_contains needle [] = (needle = [])"
| "str_contains needle (c # cs) = (starts_with needle (c # cs) \<or> str_contains needle cs)"

subsection \<open>Floats\<close>

text \<open>
  A float is a real number that is a binary64 value. \<open>to_double\<close> rounds a real to the
  nearest such value, a tie going to the even significand: with \<open>2 ^ e \<le> \<bar>x\<bar> < 2 ^ (e + 1)\<close>
  the spacing is \<open>2 ^ (e - 52)\<close>, and below \<open>2 ^ (- 1022)\<close> it stays \<open>2 ^ (- 1074)\<close>.
  Values beyond the largest double are outside the model.
\<close>

fun bit_length :: "nat \<Rightarrow> nat" where
  "bit_length n = (if n = 0 then 0 else Suc (bit_length (n div 2)))"

declare bit_length.simps [simp del]

definition pow2 :: "int \<Rightarrow> real" where
  "pow2 k = (if 0 \<le> k then 2 ^ nat k else 1 / 2 ^ nat (- k))"

text \<open>The exponent \<open>e\<close> of a positive real, kept at or above \<open>- 1022\<close>.\<close>

definition binade :: "real \<Rightarrow> int" where
  "binade x =
     (if 1 \<le> x then int (bit_length (nat \<lfloor>x\<rfloor>)) - 1
      else max (- 1022) (- int (bit_length (nat (\<lceil>1 / x\<rceil> - 1)))))"

definition round_half_even :: "real \<Rightarrow> int" where
  "round_half_even y =
     (let f = \<lfloor>y\<rfloor>; d = y - of_int f
      in if d < 1 / 2 then f else if 1 / 2 < d then f + 1 else if even f then f else f + 1)"

definition to_double :: "real \<Rightarrow> real" where
  "to_double x =
     (if x = 0 then 0
      else (let ulp = pow2 (binade \<bar>x\<bar> - 52)
            in sgn x * of_int (round_half_even (\<bar>x\<bar> / ulp)) * ulp))"

text \<open>
  \<open>a / b\<close> on two integers and on a float and an integer: the quotient, rounded once.
\<close>

definition int_truediv :: "int \<Rightarrow> int \<Rightarrow> real" where
  "int_truediv a b = to_double (of_int a / of_int b)"

definition float_truediv :: "real \<Rightarrow> int \<Rightarrow> real" where
  "float_truediv x b = to_double (x / of_int b)"

text \<open>
  \<open>round(x, ndigits)\<close> on a float: the exact value of \<open>x\<close> is rounded to the nearest
  multiple of \<open>10 ^ (- ndigits)\<close>, a tie going to the even neighbour, and the float
  nearest to that decimal is returned.
\<close>

definition py_round :: "real \<Rightarrow> nat \<Rightarrow> real" where
  "py_round x ndigits = to_double (of_int (round_half_even (x * 10 ^ ndigits)) / 10 ^ ndigits)"

section \<open>Schema registry and validator\<close>

record tool_schema =
  required :: "(string \<times> string) list"
  optional :: "(string \<times> string) list"

text \<open>The registry \<open>TOOL_SCHEMAS\<close>: 63 tools, each with its required and optional
  \<open>(name, type string)\<close> pairs, in the order of the source.\<close>

definition TOOL_SCHEMAS :: "(string \<times> tool_schema) list" where
  "TOOL_SCHEMAS = [
    (''vice.ping'',
      \<lparr>required = [],
       optional = []\<rparr>),
    (''vice.execution.run'',
      \<lparr>required = [],
       optional = []\<rparr>),
    (''vice.execution.pause'',
      \<lparr>required = [],
       optional = []\<rparr>),
    (''vice.execution.step'',
      \<lparr>required = [],
       optional = [(''count'', ''number''), (''step_over'', ''boolean'')]\<rparr>),
    (''vice.registers.get'',
      \<lparr>required = [],
       optional = []\<rparr>),
    (''vice.registers.set'',
      \<lparr>required = [(''register'', ''string''), (''value'', ''number'')],
       optional = []\<rparr>),
    (''vice.memory.read'',
      \<lparr>required = [(''address'', ''any''), (''size'', ''number'')],
       optional = [(''bank'', ''string'')]\<rparr>),
    (''vice.memory.write'',
      \<lparr>required = [(''address'', ''any''), (''data'', ''array'')],
       optional = []\<rparr>),
    (''vice.memory.banks'',
      \<lparr>required = [],
       optional = []\<rparr>),
    (''vice.memory.search'',
      \<lparr>required = [(''start'', ''any''), (''end'', ''any''), (''pattern'', ''array'')],
       optional = [(''mask'', ''array''), (''max_results'', ''number'')]\<rparr>),
    (''vice.checkpoint.add'',
      \<lparr>required = [(''start'', ''any'')],
       optional = [(''end'', ''any''), (''stop'', ''boolean''), (''load'', ''boolean''), (''store'', ''boolean''), (''exec'', ''boolean'')]\<rparr>),
    (''vice.checkpoint.delete'',
      \<lparr>required = [(''checkpoint_num'', ''number'')],
       optional = []\<rparr>),
    (''vice.checkpoint.list'',
      \<lparr>required = [],
       optional = []\<rparr>),
    (''vice.checkpoint.toggle'',
      \<lparr>required = [(''checkpoint_num'', ''number''), (''enabled'', ''boolean'')],
       optional = []\<rparr>),
    (''vice.checkpoint.set_condition'',
      \<lparr>required = [(''checkpoint_num'', ''number''), (''condition'', ''string'')],
       optional = []\<rparr>),
    (''vice.checkpoint.set_ignore_count'',
      \<lparr>required = [(''checkpoint_num'', ''number''), (''count'', ''number'')],
       optional = []\<rparr>),
    (''vice.sprite.get'',
      \<lparr>required = [],
       optional = [(''sprite'', ''number'')]\<rparr>),
    (''vice.sprite.set'',
      \<lparr>required = [(''sprite'', ''number'')],
       optional = [(''enabled'', ''boolean''), (''x'', ''number''), (''y'', ''number''), (''color'', ''number''), (''multicolor'', ''boolean''), (''expand_x'', ''boolean''), (''expand_y'', ''boolean''), (''priority'', ''boolean''), (''multicolor0'', ''number''), (''multicolor1'', ''number''), (''pointer'', ''number'')]\<rparr>),
    (''vice.vicii.get_state'',
      \<lparr>required = [],
       optional = []\<rparr>),
    (''vice.vicii.set_state'',
      \<lparr>required = [],
       optional = [(''registers'', ''array'')]\<rparr>),
    (''vice.sid.get_state'',
      \<lparr>required = [],
       optional = []\<rparr>),
    (''vice.sid.set_state'',
      \<lparr>required = [],
       optional = [(''registers'', ''array'')]\<rparr>),
    (''vice.cia.get_state'',
      \<lparr>required = [],
       optional = []\<rparr>),
    (''vice.cia.set_state'',
      \<lparr>required = [],
       optional = [(''cia1_registers'', ''array''), (''cia2_registers'', ''array'')]\<rparr>),
    (''vice.disk.attach'',
      \<lparr>required = [(''unit'', ''number''), (''path'', ''string'')],
       optional = []\<rparr>),
    (''vice.disk.detach'',
      \<lparr>required = [(''unit'', ''number'')],
       optional = []\<rparr>),
    (''vice.disk.list'',
      \<lparr>required = [(''unit'', ''number'')],
       optional = []\<rparr>),
    (''vice.disk.read_sector'',
      \<lparr>required = [(''unit'', ''number''), (''track'', ''number''), (''sector'', ''number'')],
       optional = []\<rparr>),
    (''vice.autostart'',
      \<lparr>required = [(''path'', ''string'')],
       optional = [(''program'', ''string''), (''run'', ''boolean''), (''index'', ''number'')]\<rparr>),
    (''vice.machine.reset'',
      \<lparr>required = [],
       optional = [(''mode'', ''string''), (''run_after'', ''boolean'')]\<rparr>),
    (''vice.display.screenshot'',
      \<lparr>required = [],
       optional = [(''path'', ''string''), (''format'', ''string''), (''return_base64'', ''boolean'')]\<rparr>),
    (''vice.display.get_dimensions'',
      \<lparr>required = [],
       optional = []\<rparr>),
    (''vice.keyboard.type'',
      \<lparr>required = [(''text'', ''string'')],
       optional = [(''petscii_upper'', ''boolean'')]\<rparr>),
    (''vice.keyboard.key_press'',
      \<lparr>required = [(''key'', ''string'')],
       optional = [(''modifiers'', ''array''), (''hold_frames'', ''number''), (''hold_ms'', ''number'')]\<rparr>),
    (''vice.keyboard.key_release'',
      \<lparr>required = [(''key'', ''string'')],
       optional = [(''modifiers'', ''array'')]\<rparr>),
    (''vice.keyboard.restore'',
      \<lparr>required = [],
       optional = [(''pressed'', ''boolean'')]\<rparr>),
    (''vice.keyboard.matrix'',
      \<lparr>required = [],
       optional = [(''key'', ''string''), (''row'', ''number''), (''col'', ''number''), (''pressed'', ''boolean''), (''hold_frames'', ''number''), (''hold_ms'', ''number'')]\<rparr>),
    (''vice.joystick.set'',
      \<lparr>required = [],
       optional = [(''port'', ''number''), (''direction'', ''string''), (''fire'', ''boolean'')]\<rparr>),
    (''vice.disassemble'',
      \<lparr>required = [(''address'', ''any'')],
       optional = [(''count'', ''number''), (''show_symbols'', ''boolean'')]\<rparr>),
    (''vice.symbols.load'',
      \<lparr>required = [(''path'', ''string'')],
       optional = [(''format'', ''string'')]\<rparr>),
    (''vice.symbols.lookup'',
      \<lparr>required = [],
       optional = [(''name'', ''string''), (''address'', ''any'')]\<rparr>),
    (''vice.watch.add'',
      \<lparr>required = [(''address'', ''any'')],
       optional = [(''size'', ''number''), (''type'', ''string''), (''condition'', ''string'')]\<rparr>),
    (''vice.backtrace'',
      \<lparr>required = [],
       optional = [(''depth'', ''number'')]\<rparr>),
    (''vice.run_until'',
      \<lparr>required = [],
       optional = [(''address'', ''any''), (''cycles'', ''number'')]\<rparr>),
    (''vice.snapshot.save'',
      \<lparr>required = [(''name'', ''string'')],
       optional = [(''description'', ''string''), (''include_roms'', ''boolean''), (''include_disks'', ''boolean'')]\<rparr>),
    (''vice.snapshot.load'',
      \<lparr>required = [(''name'', ''string'')],
       optional = []\<rparr>),
    (''vice.snapshot.list'',
      \<lparr>required = [],
       optional = []\<rparr>),
    (''vice.cycles.stopwatch'',
      \<lparr>required = [(''action'', ''string'')],
       optional = []\<rparr>),
    (''vice.memory.fill'',
      \<lparr>required = [(''start'', ''any''), (''end'', ''any''), (''pattern'', ''array'')],
       optional = []\<rparr>),
    (''vice.memory.compare'',
      \<lparr>required = [(''mode'', ''string'')],
       optional = [(''start1'', ''any''), (''end1'', ''any''), (''start2'', ''any''), (''snapshot_name'', ''string''), (''start'', ''any''), (''end'', ''any'')]\<rparr>),
    (''vice.memory.map'',
      \<lparr>required = [],
       optional = [(''start'', ''any''), (''end'', ''any''), (''granularity'', ''number'')]\<rparr>),
    (''vice.checkpoint.group.create'',
      \<lparr>required = [(''name'', ''string'')],
       optional = [(''checkpoint_ids'', ''array'')]\<rparr>),
    (''vice.checkpoint.group.add'',
      \<lparr>required = [(''group'', ''string''), (''checkpoint_ids'', ''array'')],
       optional = []\<rparr>),
    (''vice.checkpoint.group.toggle'',
      \<lparr>required = [(''group'', ''string''), (''enabled'', ''boolean'')],
       optional = []\<rparr>),
    (''vice.checkpoint.group.list'',
      \<lparr>required = [],
       optional = []\<rparr>),
    (''vice.checkpoint.set_auto_snapshot'',
      \<lparr>required = [(''checkpoint_id'', ''number''), (''snapshot_prefix'', ''string'')],
       optional = [(''max_snapshots'', ''number''), (''include_disks'', ''boolean'')]\<rparr>),
    (''vice.checkpoint.clear_auto_snapshot'',
      \<lparr>required = [(''checkpoint_id'', ''number'')],
       optional = []\<rparr>),
    (''vice.trace.start'',
      \<lparr>required = [(''output_file'', ''string'')],
       optional = [(''pc_filter_start'', ''any''), (''pc_filter_end'', ''any''), (''max_instructions'', ''number''), (''include_registers'', ''boolean'')]\<rparr>),
    (''vice.trace.stop'',
      \<lparr>required = [(''trace_id'', ''string'')],
       optional = []\<rparr>),
    (''vice.interrupt.log.start'',
      \<lparr>required = [],
       optional = [(''types'', ''array''), (''max_entries'', ''number'')]\<rparr>),
    (''vice.interrupt.log.stop'',
      \<lparr>required = [(''log_id'', ''string'')],
       optional = []\<rparr>),
    (''vice.interrupt.log.read'',
      \<lparr>required = [(''log_id'', ''string'')],
       optional = [(''since_index'', ''number'')]\<rparr>),
    (''vice.sprite.inspect'',
      \<lparr>required = [(''sprite_number'', ''number'')],
       optional = [(''format'', ''string'')]\<rparr>)]"

definition validate_type :: "pyval \<Rightarrow> string \<Rightarrow> bool" where
  "validate_type v type_str =
     (if type_str = ''any'' then True
      else if type_str = ''number'' then
        (isinstance_int v \<or> isinstance_float v) \<and> \<not> isinstance_bool v
      else if type_str = ''string'' then isinstance_str v
      else if type_str = ''boolean'' then isinstance_bool v
      else if type_str = ''array'' then isinstance_list v \<or> isinstance_tuple v
      else if type_str = ''object'' then isinstance_dict v
      else True)"

definition missing_msg :: "string \<Rightarrow> string \<Rightarrow> string" where
  "missing_msg param_name tool_name =
     ''Missing required parameter '' @ [CHR 0x27] @ param_name @ [CHR 0x27] @ '' for '' @ tool_name"

definition wrong_type_msg :: "string \<Rightarrow> string \<Rightarrow> string \<Rightarrow> pyval \<Rightarrow> string" where
  "wrong_type_msg param_name tool_name param_type v =
     ''Parameter '' @ [CHR 0x27] @ param_name @ [CHR 0x27] @ '' for '' @ tool_name @ '' must be ''
       @ param_type @ '', got '' @ type_name v"

text \<open>The two loops of \<open>validate_params\<close>, each appending to the list of errors.\<close>

fun check_required :: "string \<Rightarrow> pydict \<Rightarrow> (string \<times> string) list \<Rightarrow> string list \<Rightarrow> string list" where
  "check_required tool_name params [] errors = errors"
| "check_required tool_name params ((param_name, param_type) # rest) errors =
     check_required tool_name params rest
       (case map_of params param_name of
          None \<Rightarrow> errors @ [missing_msg param_name tool_name]
        | Some v \<Rightarrow>
            if \<not> validate_type v param_type
            then errors @ [wrong_type_msg param_name tool_name param_type v]
            else errors)"

fun check_optional :: "string \<Rightarrow> pydict \<Rightarrow> (string \<times> string) list \<Rightarrow> string list \<Rightarrow> string list" where
  "check_optional tool_name params [] errors = errors"
| "check_optional tool_name params ((param_name, param_type) # rest) errors =
     check_optional tool_name params rest
       (case map_of params param_name of
          None \<Rightarrow> errors
        | Some v \<Rightarrow>
            if \<not> validate_type v param_type
            then errors @ [wrong_type_msg param_name tool_name param_type v]
            else errors)"

text \<open>
  \<open>validate_params\<close>: the list of error strings, empty when the arguments are valid or
  the tool is unknown. The warning logged for an unexpected key does not change the
  result and is not modelled.
\<close>

definition validate_params :: "string \<Rightarrow> pydict \<Rightarrow> string list" where
  "validate_params tool_name params =
     (case map_of TOOL_SCHEMAS tool_name of
        None \<Rightarrow> []
      | Some schema \<Rightarrow>
          check_optional tool_name params (optional schema)
            (check_required tool_name params (required schema) []))"

section \<open>Exceptions\<close>

text \<open>
  The classes the retry loop tells apart. \<open>OSError\<close> stands for the class and its
  subclasses (\<open>ConnectionError\<close>, \<open>TimeoutError\<close>, the errors of \<open>urllib\<close> and
  \<open>requests\<close>); \<open>OtherException\<close> is any other subclass of \<open>Exception\<close>, and
  \<open>BaseException\<close> one that is not under \<open>Exception\<close> (\<open>KeyboardInterrupt\<close>).
  An exception carries its type's name, \<open>str(exc)\<close>, and the attributes \<open>code\<close> and
  \<open>data\<close> when it has them.
\<close>

datatype exc_class =
    ViceMCPError
  | ViceMCPConnectionError
  | ViceMCPTimeoutError
  | ViceMCPProtocolError
  | ViceMCPToolError
  | ViceMCPValidationError
  | OSError
  | OtherException
  | BaseException

record pyexc =
  exc_class :: exc_class
  exc_name :: string
  exc_str :: string
  exc_code :: "pyval option"
  exc_data :: "pyval option"

fun class_name :: "exc_class \<Rightarrow> string" where
  "class_name ViceMCPError = ''ViceMCPError''"
| "class_name ViceMCPConnectionError = ''ViceMCPConnectionError''"
| "class_name ViceMCPTimeoutError = ''ViceMCPTimeoutError''"
| "class_name ViceMCPProtocolError = ''ViceMCPProtocolError''"
| "class_name ViceMCPToolError = ''ViceMCPToolError''"
| "class_name ViceMCPValidationError = ''ViceMCPValidationError''"
| "class_name OSError = ''OSError''"
| "class_name OtherException = ''Exception''"
| "class_name BaseException = ''BaseException''"

text \<open>\<open>isinstance(exc, ViceMCPError)\<close> and \<open>isinstance(exc, Exception)\<close>.\<close>

fun is_vice_error :: "exc_class \<Rightarrow> bool" where
  "is_vice_error OSError = False"
| "is_vice_error OtherException = False"
| "is_vice_error BaseException = False"
| "is_vice_error c = True"

fun is_exception :: "exc_class \<Rightarrow> bool" where
  "is_exception BaseException = False"
| "is_exception c = True"

text \<open>\<open>ViceMCPError.__init__(message, code, data)\<close>, for the class and its subclasses.\<close>

definition vice_error :: "exc_class \<Rightarrow> string \<Rightarrow> pyval \<Rightarrow> pyval \<Rightarrow> pyexc" where
  "vice_error c message code data =
     \<lparr>exc_class = c, exc_name = class_name c, exc_str = message,
      exc_code = Some code, exc_data = Some data\<rparr>"

definition builtin_error :: "string \<Rightarrow> string \<Rightarrow> pyexc" where
  "builtin_error name message =
     \<lparr>exc_class = OtherException, exc_name = name, exc_str = message,
      exc_code = None, exc_data = None\<rparr>"

text \<open>\<open>getattr(last_error, "code", None)\<close> and \<open>str(last_error) if last_error else None\<close>.\<close>

definition getattr_code :: "pyexc option \<Rightarrow> pyval" where
  "getattr_code last_error =
     (case last_error of
        None \<Rightarrow> PNone
      | Some e \<Rightarrow> (case exc_code e of None \<Rightarrow> PNone | Some c \<Rightarrow> c))"

definition JSONRPC_PARSE_ERROR :: int where "JSONRPC_PARSE_ERROR = - 32700"
definition JSONRPC_INVALID_REQUEST :: int where "JSONRPC_INVALID_REQUEST = - 32600"
definition JSONRPC_INVALID_PARAMS :: int where "JSONRPC_INVALID_PARAMS = - 32602"

text \<open>\<open>frozenset(range(-32799, -32599))\<close>.\<close>

definition PROTOCOL_ERROR_CODES :: "int set" where
  "PROTOCOL_ERROR_CODES = {- 32799 ..< - 32599}"

text \<open>
  \<open>code in _PROTOCOL_ERROR_CODES\<close> for a value that can be hashed: a member is equal to
  one of the integers (\<open>True\<close> is 1, a float is compared by value).
\<close>

fun in_protocol_codes :: "pyval \<Rightarrow> bool" where
  "in_protocol_codes (PInt i) = (i \<in> PROTOCOL_ERROR_CODES)"
| "in_protocol_codes (PBool b) = ((if b then 1 else 0) \<in> PROTOCOL_ERROR_CODES)"
| "in_protocol_codes (PFloat r) = (r = of_int \<lfloor>r\<rfloor> \<and> \<lfloor>r\<rfloor> \<in> PROTOCOL_ERROR_CODES)"
| "in_protocol_codes v = False"

section \<open>Reliability monitor\<close>

record log_entry =
  ts :: string
  tool :: string
  duration_ms :: real
  success :: bool
  error :: "string option"
  error_code :: pyval
  retry_count :: int
  fallback_used :: bool

record reliability_monitor =
  log_path :: string
  entries :: "log_entry list"

text \<open>
  What the engine needs from outside, over a world \<open>'w\<close> that the calls change:
  \<^item> \<open>http_post url payload timeout\<close>: one blocking send (\<open>_http_post\<close>), giving the
    status and the body or raising; the payload is the object whose compact JSON text is
    sent;
  \<^item> \<open>json_loads\<close>: \<open>json.loads\<close> on a string, \<open>Inl\<close> the message of the decode error;
  \<^item> \<open>py_repr\<close>: \<open>str\<close> of a value that is not a string;
  \<^item> \<open>monotonic\<close> and \<open>utcnow_iso\<close>: the two clocks;
  \<^item> \<open>append_line path entry\<close>: opening the log file for append and writing the entry
    as one line, \<open>Some msg\<close> when that raises \<open>OSError\<close>;
  \<^item> \<open>sleep\<close>: what \<open>time.sleep\<close> does to the world;
  \<^item> \<open>float_sum\<close>: the builtin \<open>sum\<close> on a list of floats, whose rounding depends on
    the interpreter (it is compensated from Python 3.12 on).
\<close>

record 'w env =
  http_post :: "string \<Rightarrow> pyval \<Rightarrow> real \<Rightarrow> 'w \<Rightarrow> (pyexc + int \<times> string) \<times> 'w"
  json_loads :: "string \<Rightarrow> string + pyval"
  py_repr :: "pyval \<Rightarrow> string"
  monotonic :: "'w \<Rightarrow> real"
  utcnow_iso :: "'w \<Rightarrow> string"
  append_line :: "string \<Rightarrow> log_entry \<Rightarrow> 'w \<Rightarrow> string option \<times> 'w"
  sleep :: "real \<Rightarrow> 'w \<Rightarrow> 'w"
  float_sum :: "real list \<Rightarrow> real"

definition py_str :: "'w env \<Rightarrow> pyval \<Rightarrow> string" where
  "py_str env v = (case v of PStr s \<Rightarrow> s | _ \<Rightarrow> py_repr env v)"

text \<open>
  \<open>MCPReliabilityMonitor.record\<close>: the entry is appended to the list in memory, then
  written to the file; an \<open>OSError\<close> there is logged and dropped.
\<close>

definition record_call ::
  "'w env \<Rightarrow> reliability_monitor \<Rightarrow> string \<Rightarrow> real \<Rightarrow> bool \<Rightarrow> string option \<Rightarrow> pyval \<Rightarrow> int \<Rightarrow> bool
     \<Rightarrow> 'w \<Rightarrow> reliability_monitor \<times> 'w" where
  "record_call env m tool_name dur succ err code retries fallback w =
     (let entry = \<lparr>ts = utcnow_iso env w, tool = tool_name, duration_ms = py_round dur 2,
                   success = succ, error = err, error_code = code, retry_count = retries,
                   fallback_used = fallback\<rparr>;
          m' = m\<lparr>entries := entries m @ [entry]\<rparr>
      in case append_line env (log_path m') entry w of
           (None, w') \<Rightarrow> (m', w')
         | (Some exc, w') \<Rightarrow> (m', w'))"

record stats =
  total_calls :: int
  failures :: int
  avg_latency_ms :: real
  failure_rate :: real
  failures_by_tool :: "string \<rightharpoonup> int"

text \<open>\<open>failures_by_tool[t] = failures_by_tool.get(t, 0) + 1\<close>, for each failure.\<close>

fun count_by_tool :: "(string \<rightharpoonup> int) \<Rightarrow> log_entry list \<Rightarrow> (string \<rightharpoonup> int)" where
  "count_by_tool counts [] = counts"
| "count_by_tool counts (e # es) =
     count_by_tool
       (counts(tool e \<mapsto> (case counts (tool e) of None \<Rightarrow> 0 | Some k \<Rightarrow> k) + 1)) es"

definition get_stats :: "'w env \<Rightarrow> reliability_monitor \<Rightarrow> stats" where
  "get_stats env m =
     (let total = length (entries m)
      in if total = 0 then
           \<lparr>total_calls = 0, failures = 0, avg_latency_ms = 0, failure_rate = 0,
            failures_by_tool = Map.empty\<rparr>
         else
           (let fails = filter (\<lambda>e. \<not> success e) (entries m);
                durations = map duration_ms (entries m)
            in \<lparr>total_calls = int total,
                failures = int (length fails),
                avg_latency_ms = py_round (float_truediv (float_sum env durations) (int total)) 2,
                failure_rate = py_round (int_truediv (int (length fails)) (int total)) 4,
                failures_by_tool = count_by_tool Map.empty fails\<rparr>))"

text \<open>The slice \<open>xs[k:]\<close>, and \<open>get_recent_failures\<close>, which is \<open>failures[-n:]\<close>.\<close>

definition slice_from :: "int \<Rightarrow> 'a list \<Rightarrow> 'a list" where
  "slice_from k xs = (if k < 0 then drop (nat (int (length xs) + k)) xs else drop (nat k) xs)"

definition get_recent_failures :: "reliability_monitor \<Rightarrow> int \<Rightarrow> log_entry list" where
  "get_recent_failures m n = slice_from (- n) (filter (\<lambda>e. \<not> success e) (entries m))"

section \<open>The client\<close>

record client =
  host :: string
  port :: int
  max_retries :: int
  retry_delay :: real
  timeout :: real
  validate :: bool
  base_url :: string
  id_counter :: int
  monitor :: reliability_monitor

text \<open>\<open>ViceMCPClient.__init__\<close>, called with a monitor.\<close>

definition new_client ::
  "string \<Rightarrow> int \<Rightarrow> int \<Rightarrow> real \<Rightarrow> real \<Rightarrow> bool \<Rightarrow> reliability_monitor \<Rightarrow> client" where
  "new_client h p retries delay t v m =
     \<lparr>host = h, port = p, max_retries = retries, retry_delay = delay, timeout = t,
      validate = v, base_url = ''http://'' @ h @ '':'' @ str_int p @ ''/mcp'',
      id_counter = 0, monitor = m\<rparr>"

text \<open>
  What a run leaves behind: the client (its counter and its monitor change), the world,
  and the sends and sleeps made so far, in order.
\<close>

datatype event = Post string pyval real | Sleep real

record 'w state =
  cl :: client
  world :: 'w
  trace :: "event list"

datatype 'w outcome = Returned pyval | Raised pyexc

subsection \<open>Payload codec\<close>

definition next_id :: "client \<Rightarrow> int \<times> client" where
  "next_id c = (let c' = c\<lparr>id_counter := id_counter c + 1\<rparr> in (id_counter c', c'))"

definition dumps_error :: pyexc where
  "dumps_error = builtin_error ''TypeError'' ''Object is not JSON serializable''"

text \<open>
  The two request shapes, as the objects handed to \<open>json.dumps\<close>. The id is taken
  before the object is serialised, so a \<open>TypeError\<close> of \<open>json.dumps\<close> still uses one
  up.
\<close>

definition mcp_payload :: "string \<Rightarrow> pydict \<Rightarrow> int \<Rightarrow> pyval" where
  "mcp_payload tool_name arguments i =
     PDict [(''jsonrpc'', PStr ''2.0''),
            (''method'', PStr ''tools/call''),
            (''params'', PDict [(''name'', PStr tool_name), (''arguments'', PDict arguments)]),
            (''id'', PInt i)]"

definition direct_payload :: "string \<Rightarrow> pydict \<Rightarrow> int \<Rightarrow> pyval" where
  "direct_payload tool_name arguments i =
     PDict [(''jsonrpc'', PStr ''2.0''),
            (''method'', PStr tool_name),
            (''params'', PDict arguments),
            (''id'', PInt i)]"

definition build_mcp_payload :: "client \<Rightarrow> string \<Rightarrow> pydict \<Rightarrow> (pyexc + pyval) \<times> client" where
  "build_mcp_payload c tool_name arguments =
     (case next_id c of (i, c') \<Rightarrow>
        (let obj = mcp_payload tool_name arguments i
         in (if json_serialisable obj then Inr obj else Inl dumps_error, c')))"

definition build_direct_payload :: "client \<Rightarrow> string \<Rightarrow> pydict \<Rightarrow> (pyexc + pyval) \<times> client" where
  "build_direct_payload c tool_name arguments =
     (case next_id c of (i, c') \<Rightarrow>
        (let obj = direct_payload tool_name arguments i
         in (if json_serialisable obj then Inr obj else Inl dumps_error, c')))"

definition parse_response :: "'w env \<Rightarrow> string \<Rightarrow> pyexc + pydict" where
  "parse_response env body =
     (case json_loads env body of
        Inl msg \<Rightarrow>
          Inl (vice_error ViceMCPProtocolError (''Invalid JSON in response: '' @ msg)
                 (PInt JSONRPC_PARSE_ERROR) PNone)
      | Inr data \<Rightarrow>
          (case data of
             PDict kvs \<Rightarrow> Inr kvs
           | _ \<Rightarrow>
               Inl (vice_error ViceMCPProtocolError ''Response is not a JSON object''
                      (PInt JSONRPC_INVALID_REQUEST) PNone)))"

text \<open>\<open>d.get(key, default)\<close>.\<close>

definition dict_get :: "pydict \<Rightarrow> string \<Rightarrow> pyval \<Rightarrow> pyval" where
  "dict_get d k dflt = (case map_of d k of None \<Rightarrow> dflt | Some v \<Rightarrow> v)"

definition unhashable_error :: "pyval \<Rightarrow> pyexc" where
  "unhashable_error v =
     builtin_error ''TypeError'' (''unhashable type: '' @ [CHR 0x27] @ type_name v @ [CHR 0x27])"

text \<open>The three fields read from the \<open>error\<close> member.\<close>

definition err_code :: "pyval \<Rightarrow> pyval" where
  "err_code err = (case err of PDict e \<Rightarrow> dict_get e ''code'' (PInt (- 1)) | _ \<Rightarrow> PInt (- 1))"

definition err_message :: "'w env \<Rightarrow> pyval \<Rightarrow> pyval" where
  "err_message env err =
     (case err of
        PDict e \<Rightarrow> dict_get e ''message'' (PStr (py_str env err))
      | _ \<Rightarrow> PStr (py_str env err))"

definition err_data :: "pyval \<Rightarrow> pyval" where
  "err_data err = (case err of PDict e \<Rightarrow> dict_get e ''data'' PNone | _ \<Rightarrow> PNone)"

text \<open>The content of a result: a single text block is decoded, or kept when it is not
  JSON; any other content is returned as it is.\<close>

definition unwrap_content :: "'w env \<Rightarrow> pyval \<Rightarrow> pyval" where
  "unwrap_content env content =
     (case content of
        PList [block] \<Rightarrow>
          (case block of
             PDict b \<Rightarrow>
               if dict_get b ''type'' PNone = PStr ''text'' then
                 (let text = dict_get b ''text'' (PStr '''')
                  in case text of
                       PStr t \<Rightarrow> (case json_loads env t of Inr v \<Rightarrow> v | Inl msg \<Rightarrow> text)
                     | _ \<Rightarrow> text)
               else content
           | _ \<Rightarrow> content)
      | _ \<Rightarrow> content)"

definition unwrap_result :: "'w env \<Rightarrow> pydict \<Rightarrow> pyexc + pyval" where
  "unwrap_result env data =
     (case map_of data ''error'' of
        Some err \<Rightarrow>
          (let code = err_code err;
               message = err_message env err
           in if \<not> hashable code then Inl (unhashable_error code)
              else if in_protocol_codes code then
                Inl (vice_error ViceMCPProtocolError (py_str env message) code (err_data err))
              else
                Inl (vice_error ViceMCPToolError (py_str env message) code (err_data err)))
      | None \<Rightarrow>
          (let result = dict_get data ''result'' PNone
           in case result of
                PDict r \<Rightarrow>
                  (case map_of r ''content'' of
                     Some content \<Rightarrow> Inr (unwrap_content env content)
                   | None \<Rightarrow> Inr result)
              | _ \<Rightarrow> Inr result))"

text \<open>Parsing and unwrapping one response.\<close>

definition decode :: "'w env \<Rightarrow> string \<Rightarrow> pyexc + pyval" where
  "decode env body =
     (case parse_response env body of Inl exc \<Rightarrow> Inl exc | Inr data \<Rightarrow> unwrap_result env data)"

subsection \<open>Dispatch and retry\<close>

text \<open>
  \<open>time.sleep\<close> raises \<open>ValueError\<close> on a negative length; it is called inside the
  exception handlers, so that error leaves \<open>_call_raw\<close>. Timeouts, delays and elapsed
  times are computed on the reals, without the rounding of each float operation.
\<close>

definition do_sleep :: "'w env \<Rightarrow> real \<Rightarrow> 'w state \<Rightarrow> pyexc + 'w state" where
  "do_sleep env d s =
     (if d < 0 then Inl (builtin_error ''ValueError'' ''sleep length must be non-negative'')
      else Inr (s\<lparr>world := sleep env d (world s), trace := trace s @ [Sleep d]\<rparr>))"

text \<open>How one iteration of the loop ends.\<close>

datatype 'w step =
    Step_return pyval "'w state"
  | Step_raise pyexc "'w state"
  | Step_continue "'w state" "pyexc option" bool
  | Step_break "'w state" "pyexc option" bool

text \<open>\<open>time.sleep(self.retry_delay * (2 ** attempt))\<close>, then the next iteration.\<close>

definition back_off :: "'w env \<Rightarrow> int \<Rightarrow> 'w state \<Rightarrow> pyexc option \<Rightarrow> bool \<Rightarrow> 'w step" where
  "back_off env attempt s last_error fallback =
     (case do_sleep env (retry_delay (cl s) * 2 ^ nat attempt) s of
        Inl exc \<Rightarrow> Step_raise exc s
      | Inr s' \<Rightarrow> Step_continue s' last_error fallback)"

definition record_in :: "'w env \<Rightarrow> 'w state \<Rightarrow> string \<Rightarrow> real \<Rightarrow> bool \<Rightarrow> string option \<Rightarrow> pyval \<Rightarrow> int \<Rightarrow> bool
     \<Rightarrow> 'w state" where
  "record_in env s tool_name start succ err code retries fallback =
     (let elapsed = (monotonic env (world s) - start) * 1000
      in case record_call env (monitor (cl s)) tool_name elapsed succ err code retries fallback
                (world s) of
           (m, w) \<Rightarrow> s\<lparr>cl := (cl s)\<lparr>monitor := m\<rparr>, world := w\<rparr>)"

text \<open>The \<open>except\<close> clauses, in the order of the source.\<close>

definition handle_exception ::
  "'w env \<Rightarrow> string \<Rightarrow> real \<Rightarrow> int \<Rightarrow> 'w state \<Rightarrow> pyexc option \<Rightarrow> bool \<Rightarrow> pyexc \<Rightarrow> 'w step" where
  "handle_exception env tool_name start attempt s last_error fallback exc =
     (if exc_class exc = ViceMCPProtocolError then
        (if \<not> fallback then Step_continue s (Some exc) True
         else if attempt < max_retries (cl s) then back_off env attempt s (Some exc) fallback
         else Step_continue s (Some exc) fallback)
      else if exc_class exc = ViceMCPToolError then
        Step_raise exc
          (record_in env s tool_name start False (map_option exc_str last_error)
             (getattr_code last_error) attempt fallback)
      else if exc_class exc = OSError then
        (if attempt < max_retries (cl s) then back_off env attempt s (Some exc) fallback
         else Step_continue s (Some exc) fallback)
      else if is_exception (exc_class exc) then
        (let is_timeout = (str_contains ''timeout'' (str_lower (exc_name exc))
                             \<or> str_contains ''Timeout'' (exc_str exc));
             is_connection = (str_contains ''connect'' (str_lower (exc_name exc))
                                \<or> str_contains ''Connect'' (exc_str exc))
         in if is_timeout \<and> attempt < max_retries (cl s) then
              back_off env attempt s (Some exc) fallback
            else if is_connection \<and> attempt < max_retries (cl s) then
              back_off env attempt s (Some exc) fallback
            else if attempt < max_retries (cl s) then
              back_off env attempt s (Some exc) fallback
            else Step_break s (Some exc) fallback)
      else Step_raise exc s)"

text \<open>What the \<open>try\<close> block makes of the transport's answer: the decoded result, or the
  exception raised by the send, by \<open>_parse_response\<close> or by \<open>_unwrap_result\<close>.\<close>

definition receive :: "'w env \<Rightarrow> pyexc + int \<times> string \<Rightarrow> pyexc + pyval" where
  "receive env response =
     (case response of
        Inl exc \<Rightarrow> Inl exc
      | Inr (status_code, body) \<Rightarrow> decode env body)"

text \<open>The body of the loop for one value of \<open>attempt\<close>.\<close>

definition attempt_body ::
  "'w env \<Rightarrow> string \<Rightarrow> pydict \<Rightarrow> real \<Rightarrow> int \<Rightarrow> 'w state \<Rightarrow> pyexc option \<Rightarrow> bool \<Rightarrow> 'w step" where
  "attempt_body env tool_name arguments start attempt s last_error fallback =
     (let current_timeout = timeout (cl s) * (3 / 2) ^ nat attempt
      in case (if fallback then build_direct_payload (cl s) tool_name arguments
               else build_mcp_payload (cl s) tool_name arguments) of
           (Inl exc, c) \<Rightarrow> Step_raise exc (s\<lparr>cl := c\<rparr>)
         | (Inr payload, c) \<Rightarrow>
             (case http_post env (base_url c) payload current_timeout (world s) of
                (response, w) \<Rightarrow>
                  (let s1 = s\<lparr>cl := c, world := w,
                               trace := trace s @ [Post (base_url c) payload current_timeout]\<rparr>
                   in case receive env response of
                        Inr result \<Rightarrow>
                          Step_return result
                            (record_in env s1 tool_name start True None PNone attempt fallback)
                      | Inl exc \<Rightarrow>
                          handle_exception env tool_name start attempt s1 last_error fallback
                            exc)))"

text \<open>
  The loop \<open>for attempt in range(self.max_retries + 1)\<close> over the values left, with the
  locals \<open>last_error\<close>, \<open>fallback_used\<close> and \<open>attempts\<close>.
\<close>

datatype 'w loop_result =
    Loop_return pyval "'w state"
  | Loop_raise pyexc "'w state"
  | Loop_done "'w state" "pyexc option" bool int

fun call_loop ::
  "'w env \<Rightarrow> string \<Rightarrow> pydict \<Rightarrow> real \<Rightarrow> int list \<Rightarrow> 'w state \<Rightarrow> pyexc option \<Rightarrow> bool \<Rightarrow> int
     \<Rightarrow> 'w loop_result" where
  "call_loop env tool_name arguments start [] s last_error fallback attempts =
     Loop_done s last_error fallback attempts"
| "call_loop env tool_name arguments start (attempt # rest) s last_error fallback attempts =
     (case attempt_body env tool_name arguments start attempt s last_error fallback of
        Step_return result s' \<Rightarrow> Loop_return result s'
      | Step_raise exc s' \<Rightarrow> Loop_raise exc s'
      | Step_continue s' last_error' fallback' \<Rightarrow>
          call_loop env tool_name arguments start rest s' last_error' fallback' (attempt + 1)
      | Step_break s' last_error' fallback' \<Rightarrow>
          Loop_done s' last_error' fallback' (attempt + 1))"

text \<open>The error raised once the loop is over.\<close>

definition exhausted_error :: "string \<Rightarrow> pyexc option \<Rightarrow> int \<Rightarrow> pyexc" where
  "exhausted_error tool_name last_error attempts =
     (let error_msg = (case last_error of Some e \<Rightarrow> exc_str e | None \<Rightarrow> ''Unknown error'');
          generic = vice_error ViceMCPError
                      (''Call to '' @ tool_name @ '' failed after '' @ str_int attempts
                         @ '' attempts: '' @ error_msg) (PInt 0) PNone
      in case last_error of
           None \<Rightarrow> generic
         | Some e \<Rightarrow>
             if is_vice_error (exc_class e) then e
             else if exc_class e = OSError then
               vice_error ViceMCPConnectionError
                 (''Failed to connect after '' @ str_int attempts @ '' attempts: '' @ exc_str e)
                 (PInt 0) PNone
             else generic)"

definition call_raw :: "'w env \<Rightarrow> string \<Rightarrow> pydict \<Rightarrow> 'w state \<Rightarrow> 'w outcome \<times> 'w state" where
  "call_raw env tool_name arguments s =
     (let start = monotonic env (world s)
      in case call_loop env tool_name arguments start [0 .. max_retries (cl s)] s None False 0 of
           Loop_return result s' \<Rightarrow> (Returned result, s')
         | Loop_raise exc s' \<Rightarrow> (Raised exc, s')
         | Loop_done s' last_error fallback attempts \<Rightarrow>
             (let error_msg = (case last_error of Some e \<Rightarrow> exc_str e
                               | None \<Rightarrow> ''Unknown error'')
              in (Raised (exhausted_error tool_name last_error attempts),
                  record_in env s' tool_name start False (Some error_msg)
                    (getattr_code last_error) (attempts - 1) fallback)))"

text \<open>\<open>ViceMCPClient.call\<close>.\<close>

definition call :: "'w env \<Rightarrow> string \<Rightarrow> pydict \<Rightarrow> 'w state \<Rightarrow> 'w outcome \<times> 'w state" where
  "call env tool_name kwargs s =
     (if validate (cl s) then
        (let errors = validate_params tool_name kwargs
         in if errors \<noteq> [] then
              (Raised (vice_error ViceMCPValidationError (str_join ''; '' errors)
                         (PInt JSONRPC_INVALID_PARAMS) PNone), s)
            else call_raw env tool_name kwargs s)
      else call_raw env tool_name kwargs s)"

text \<open>Several calls one after the other on the same client, their results dropped.\<close>

fun call_seq :: "'w env \<Rightarrow> (string \<times> pydict) list \<Rightarrow> 'w state \<Rightarrow> 'w state" where
  "call_seq env [] s = s"
| "call_seq env ((tool_name, kwargs) # rest) s = call_seq env rest (snd (call env tool_name kwargs s))"

text \<open>The request ids sent, read off the payloads of the trace.\<close>

definition request_id :: "pyval \<Rightarrow> int option" where
  "request_id payload =
     (case payload of
        PDict kvs \<Rightarrow> (case map_of kvs ''id'' of Some (PInt i) \<Rightarrow> Some i | _ \<Rightarrow> None)
      | _ \<Rightarrow> None)"

fun post_ids :: "event list \<Rightarrow> int option list" where
  "post_ids [] = []"
| "post_ids (Post url payload t # es) = request_id payload # post_ids es"
| "post_ids (Sleep d # es) = post_ids es"

fun post_timeouts :: "event list \<Rightarrow> real list" where
  "post_timeouts [] = []"
| "post_timeouts (Post url payload t # es) = t # post_timeouts es"
| "post_timeouts (Sleep d # es) = post_timeouts es"

fun sleeps :: "event list \<Rightarrow> real list" where
  "sleeps [] = []"
| "sleeps (Post url payload t # es) = sleeps es"
| "sleeps (Sleep d # es) = d # sleeps es"

text \<open>The state after one send: an id used, the world moved on, the send in the trace.\<close>

definition sent :: "'w state \<Rightarrow> pyval \<Rightarrow> real \<Rightarrow> 'w \<Rightarrow> 'w state" where
  "sent s payload t w =
     s\<lparr>cl := (cl s)\<lparr>id_counter := id_counter (cl s) + 1\<rparr>, world := w,
       trace := trace s @ [Post (base_url (cl s)) payload t]\<rparr>"

text \<open>The state after one sleep.\<close>

definition slept :: "'w env \<Rightarrow> real \<Rightarrow> 'w state \<Rightarrow> 'w state" where
  "slept env d s = s\<lparr>world := sleep env d (world s), trace := trace s @ [Sleep d]\<rparr>"

text \<open>The state in which an iteration ends, however it ends.\<close>

fun step_state :: "'w step \<Rightarrow> 'w state" where
  "step_state (Step_return result s) = s"
| "step_state (Step_raise exc s) = s"
| "step_state (Step_continue s last_error fallback) = s"
| "step_state (Step_break s last_error fallback) = s"

fun loop_state :: "'w loop_result \<Rightarrow> 'w state" where
  "loop_state (Loop_return result s) = s"
| "loop_state (Loop_raise exc s) = s"
| "loop_state (Loop_done s last_error fallback attempts) = s"

text \<open>
  From \<open>s\<close> to \<open>s'\<close> the trace has only grown, every send added carries a request id,
  these ids increase strictly, and each lies above the counter of \<open>s\<close> and not above
  the counter of \<open>s'\<close>.
\<close>

definition advances :: "'w state \<Rightarrow> 'w state \<Rightarrow> bool" where
  "advances s s' =
     (\<exists>ids. post_ids (trace s') = post_ids (trace s) @ map Some ids \<and>
            sorted_wrt (<) ids \<and>
            list_all (\<lambda>i. id_counter (cl s) < i \<and> i \<le> id_counter (cl s')) ids \<and>
            id_counter (cl s) \<le> id_counter (cl s'))"

section \<open>Sample environments\<close>

text \<open>
  A world that is a script: the list of the transport's answers still to come, one taken
  by each send, and a refused connection once the script is over. The decoder knows the
  bodies listed in \<open>bodies\<close>; \<open>disk_ok\<close> says whether the log file can be written;
  floats are summed from left to right.
\<close>

type_synonym script = "(pyexc + int \<times> string) list"

definition connection_refused :: pyexc where
  "connection_refused =
     \<lparr>exc_class = OSError, exc_name = ''ConnectionRefusedError'',
      exc_str = ''[Errno 111] Connection refused'', exc_code = None, exc_data = None\<rparr>"

definition scripted_env :: "(string \<times> pyval) list \<Rightarrow> bool \<Rightarrow> script env" where
  "scripted_env bodies disk_ok =
     \<lparr>http_post = (\<lambda>url payload t w. case w of [] \<Rightarrow> (Inl connection_refused, [])
                                         | r # rs \<Rightarrow> (r, rs)),
      json_loads = (\<lambda>body. case map_of bodies body of Some v \<Rightarrow> Inr v
                            | None \<Rightarrow> Inl ''Expecting value: line 1 column 1 (char 0)''),
      py_repr = (\<lambda>v. ''<'' @ type_name v @ ''>''),
      monotonic = (\<lambda>w. 0),
      utcnow_iso = (\<lambda>w. ''2026-01-01T00:00:00+00:00''),
      append_line = (\<lambda>path entry w. (if disk_ok then None else Some ''[Errno 28] No space left on device'', w)),
      sleep = (\<lambda>d w. w),
      float_sum = foldl (\<lambda>a d. to_double (a + d)) 0\<rparr>"

definition not_found_error :: pyval where
  "not_found_error = PDict [(''code'', PInt (- 32601)), (''message'', PStr ''Method not found'')]"

definition invalid_request_error :: pyval where
  "invalid_request_error =
     PDict [(''code'', PInt (- 32600)), (''message'', PStr ''Invalid Request'')]"

definition invalid_address_error :: pyval where
  "invalid_address_error =
     PDict [(''code'', PInt (- 32002)), (''message'', PStr ''Invalid address'')]"

definition error_response :: "pyval \<Rightarrow> pydict" where
  "error_response err = [(''jsonrpc'', PStr ''2.0''), (''id'', PInt 1), (''error'', err)]"

definition sample_bodies :: "(string \<times> pyval) list" where
  "sample_bodies =
     [(''not-found'', PDict (error_response not_found_error)),
      (''invalid-address'', PDict (error_response invalid_address_error)),
      (''invalid-request'', PDict (error_response invalid_request_error)),
      (''pong'',
         PDict [(''jsonrpc'', PStr ''2.0''), (''id'', PInt 1),
                (''result'', PDict [(''status'', PStr ''ok'')])])]"

definition sample_monitor :: reliability_monitor where
  "sample_monitor = \<lparr>log_path = ''/tmp/reliability.jsonl'', entries = []\<rparr>"

definition sample_client :: "int \<Rightarrow> client" where
  "sample_client retries = new_client ''127.0.0.1'' 6510 retries (1 / 2) 10 True sample_monitor"

definition sample_state :: "int \<Rightarrow> script \<Rightarrow> script state" where
  "sample_state retries w = \<lparr>cl = sample_client retries, world = w, trace = []\<rparr>"

text \<open>Recording one call per flag for the same tool: \<open>True\<close> a success, \<open>False\<close> a
  failure.\<close>

fun record_outcomes ::
  "'w env \<Rightarrow> string \<Rightarrow> bool list \<Rightarrow> reliability_monitor \<times> 'w \<Rightarrow> reliability_monitor \<times> 'w" where
  "record_outcomes env tool_name [] mw = mw"
| "record_outcomes env tool_name (ok # rest) mw =
     record_outcomes env tool_name rest
       (record_call env (fst mw) tool_name 12 ok
          (if ok then None else Some ''[Errno 111] Connection refused'') PNone 0 False (snd mw))"

text \<open>Two clients made in the same process, each making one call, one after the other.\<close>

definition first_client_run :: "script state" where
  "first_client_run =
     snd (call (scripted_env sample_bodies True) ''vice.ping'' []
            (sample_state 3 [Inr (200, ''pong''), Inr (200, ''pong'')]))"

definition second_client_run :: "script state" where
  "second_client_run =
     snd (call (scripted_env sample_bodies True) ''vice.ping'' []
            \<lparr>cl = sample_client 3, world = world first_client_run,
             trace = trace first_client_run\<rparr>)"

text \<open>A log of 159 successes and one failure: the rate 1/160 is 0.00625, halfway
  between 0.0062 and 0.0063.\<close>

definition sample_entry :: "bool \<Rightarrow> log_entry" where
  "sample_entry ok =
     \<lparr>ts = ''2026-01-01T00:00:00+00:00'', tool = ''vice.ping'', duration_ms = 12,
      success = ok, error = (if ok then None else Some ''[Errno 111] Connection refused''),
      error_code = PNone, retry_count = 0, fallback_used = False\<rparr>"

definition tie_monitor :: reliability_monitor where
  "tie_monitor =
     \<lparr>log_path = ''/tmp/reliability.jsonl'',
      entries = replicate 159 (sample_entry True) @ [sample_entry False]\<rparr>"

section \<open>The validator\<close>

lemma check_required_grows:
  "length errors \<le> length (check_required tool_name params req errors)"
proof (induction req arbitrary: errors)
  case Nil
  then show ?case by simp
next
  case (Cons p req)
  obtain n t where p: "p = (n, t)" by (cases p)
  have "length errors \<le> length (case map_of params n of
          None \<Rightarrow> errors @ [missing_msg n tool_name]
        | Some v \<Rightarrow> if \<not> validate_type v t
            then errors @ [wrong_type_msg n tool_name t v] else errors)"
    by (simp split: option.split)
  also have "\<dots> \<le> length (check_required tool_name params (p # req) errors)"
    unfolding p check_required.simps by (rule Cons.IH)
  finally show ?case .
qed

lemma check_optional_grows:
  "length errors \<le> length (check_optional tool_name params opt errors)"
proof (induction opt arbitrary: errors)
  case Nil
  then show ?case by simp
next
  case (Cons p opt)
  obtain n t where p: "p = (n, t)" by (cases p)
  have "length errors \<le> length (case map_of params n of
          None \<Rightarrow> errors
        | Some v \<Rightarrow> if \<not> validate_type v t
            then errors @ [wrong_type_msg n tool_name t v] else errors)"
    by (simp split: option.split)
  also have "\<dots> \<le> length (check_optional tool_name params (p # opt) errors)"
    unfolding p check_optional.simps by (rule Cons.IH)
  finally show ?case .
qed

lemma validate_type_bool_number [simp]: "\<not> validate_type (PBool b) ''number''"
  by (simp add: validate_type_def)

lemma check_required_bool:
  assumes "(n, ''number'') \<in> set req" and "map_of params n = Some (PBool b)"
  shows "length errors < length (check_required tool_name params req errors)"
  using assms(1)
proof (induction req arbitrary: errors)
  case Nil
  then show ?case by simp
next
  case (Cons p req)
  obtain m t where p: "p = (m, t)" by (cases p)
  show ?case
  proof (cases "p = (n, ''number'')")
    case True
    have "length errors < length (errors @ [wrong_type_msg n tool_name ''number'' (PBool b)])"
      by simp
    also have "\<dots> \<le> length (check_required tool_name params req
                 (errors @ [wrong_type_msg n tool_name ''number'' (PBool b)]))"
      by (rule check_required_grows)
    finally show ?thesis using True assms(2) by simp
  next
    case False
    with Cons.prems have mem: "(n, ''number'') \<in> set req" by simp
    have "length errors \<le> length (case map_of params m of
          None \<Rightarrow> errors @ [missing_msg m tool_name]
        | Some v \<Rightarrow> if \<not> validate_type v t
            then errors @ [wrong_type_msg m tool_name t v] else errors)"
      by (simp split: option.split)
    also have "\<dots> < length (check_required tool_name params (p # req) errors)"
      unfolding p check_required.simps by (rule Cons.IH [OF mem])
    finally show ?thesis .
  qed
qed

lemma check_optional_bool:
  assumes "(n, ''number'') \<in> set opt" and "map_of params n = Some (PBool b)"
  shows "length errors < length (check_optional tool_name params opt errors)"
  using assms(1)
proof (induction opt arbitrary: errors)
  case Nil
  then show ?case by simp
next
  case (Cons p opt)
  obtain m t where p: "p = (m, t)" by (cases p)
  show ?case
  proof (cases "p = (n, ''number'')")
    case True
    have "length errors < length (errors @ [wrong_type_msg n tool_name ''number'' (PBool b)])"
      by simp
    also have "\<dots> \<le> length (check_optional tool_name params opt
                 (errors @ [wrong_type_msg n tool_name ''number'' (PBool b)]))"
      by (rule check_optional_grows)
    finally show ?thesis using True assms(2) by simp
  next
    case False
    with Cons.prems have mem: "(n, ''number'') \<in> set opt" by simp
    have "length errors \<le> length (case map_of params m of
          None \<Rightarrow> errors
        | Some v \<Rightarrow> if \<not> validate_type v t
            then errors @ [wrong_type_msg m tool_name t v] else errors)"
      by (simp split: option.split)
    also have "\<dots> < length (check_optional tool_name params (p # opt) errors)"
      unfolding p check_optional.simps by (rule Cons.IH [OF mem])
    finally show ?thesis .
  qed
qed

text \<open>
  Claim C6. A boolean never passes as a \<open>number\<close>: \<open>_validate_type(v, "number")\<close> is
  false for every boolean \<open>v\<close>, and \<open>validate_params\<close> returns at least one error
  whenever a registered tool declares a required or an optional parameter of kind
  \<open>number\<close> and the arguments give that parameter a boolean.
\<close>

theorem boolean_rejected_as_number:
  "validate_type (PBool b) ''number'' = False \<and>
   (map_of TOOL_SCHEMAS tool_name = Some schema \<longrightarrow>
    (param_name, ''number'') \<in> set (required schema) \<union> set (optional schema) \<longrightarrow>
    map_of params param_name = Some (PBool b) \<longrightarrow>
    validate_params tool_name params \<noteq> [])"
proof (intro conjI impI)
  show "validate_type (PBool b) ''number'' = False" by simp
next
  assume schema: "map_of TOOL_SCHEMAS tool_name = Some schema"
    and mem: "(param_name, ''number'') \<in> set (required schema) \<union> set (optional schema)"
    and arg: "map_of params param_name = Some (PBool b)"
  let ?req = "check_required tool_name params (required schema) []"
  have "0 < length (check_optional tool_name params (optional schema) ?req)"
  proof (cases "(param_name, ''number'') \<in> set (required schema)")
    case True
    have "length ([] :: string list) < length ?req"
      using True arg by (rule check_required_bool)
    then have "0 < length ?req" by simp
    also have "\<dots> \<le> length (check_optional tool_name params (optional schema) ?req)"
      by (rule check_optional_grows)
    finally show ?thesis .
  next
    case False
    with mem have "(param_name, ''number'') \<in> set (optional schema)" by simp
    then have "length ?req < length (check_optional tool_name params (optional schema) ?req)"
      using arg by (rule check_optional_bool)
    then show ?thesis by linarith
  qed
  then show "validate_params tool_name params \<noteq> []"
    by (auto simp add: validate_params_def schema)
qed

lemma schema_lookup_registers_set:
  "map_of TOOL_SCHEMAS ''vice.registers.set'' =
     Some \<lparr>required = [(''register'', ''string''), (''value'', ''number'')], optional = []\<rparr>"
  by (simp add: TOOL_SCHEMAS_def)

theorem boolean_rejected_as_number_witness:
  "validate_type (PBool True) ''number'' = False \<and>
   map_of TOOL_SCHEMAS ''vice.registers.set'' =
     Some \<lparr>required = [(''register'', ''string''), (''value'', ''number'')], optional = []\<rparr> \<and>
   map_of [(''register'', PStr ''A''), (''value'', PBool True)] ''value'' = Some (PBool True) \<and>
   validate_params ''vice.registers.set'' [(''register'', PStr ''A''), (''value'', PBool True)] \<noteq> []"
  using boolean_rejected_as_number [of True "''vice.registers.set''"
      "\<lparr>required = [(''register'', ''string''), (''value'', ''number'')], optional = []\<rparr>"
      "''value''" "[(''register'', PStr ''A''), (''value'', PBool True)]"]
    schema_lookup_registers_set
  by simp

lemma validate_missing_register:
  "validate_params ''vice.registers.set'' [] =
     [missing_msg ''register'' ''vice.registers.set'', missing_msg ''value'' ''vice.registers.set'']"
  by (simp add: validate_params_def schema_lookup_registers_set)

text \<open>
  Claim C1 says that a call refused by the validator is still recorded by the monitor,
  as a failed entry with no retry. \<open>call\<close> raises before it reaches \<open>_call_raw\<close>, the
  only place that records: with \<open>register\<close> and \<open>value\<close> missing, the log of a new
  client stays empty.
\<close>

theorem validation_failure_not_recorded_counterexample:
  "validate (cl (sample_state 3 [])) \<and>
   validate_params ''vice.registers.set'' [] \<noteq> [] \<and>
   entries (monitor (cl (snd (call (scripted_env sample_bodies True) ''vice.registers.set'' []
      (sample_state 3 []))))) = []"
  by (simp add: call_def validate_missing_register sample_state_def sample_client_def
      new_client_def sample_monitor_def)

text \<open>
  Claim C1, as the code has it. When validation is enabled and \<open>validate_params\<close>
  returns errors, the call raises \<open>ViceMCPValidationError\<close> (the errors joined by
  \<open>"; "\<close>, code -32602) and leaves the client, the world and the trace as they were:
  nothing is sent, nothing is retried, no request id is used and the monitor records
  nothing.
\<close>

theorem validation_failure_aborts:
  assumes "validate (cl s)" and "validate_params tool_name kwargs \<noteq> []"
  shows "call env tool_name kwargs s =
           (Raised (vice_error ViceMCPValidationError
                      (str_join ''; '' (validate_params tool_name kwargs))
                      (PInt (- 32602)) PNone), s)"
  using assms by (simp add: call_def JSONRPC_INVALID_PARAMS_def)

theorem validation_failure_aborts_witness:
  "validate (cl (sample_state 3 [])) \<and>
   validate_params ''vice.registers.set'' [] \<noteq> [] \<and>
   call (scripted_env sample_bodies True) ''vice.registers.set'' [] (sample_state 3 []) =
     (Raised (vice_error ViceMCPValidationError
                (str_join ''; '' (validate_params ''vice.registers.set'' []))
                (PInt (- 32602)) PNone), sample_state 3 [])"
proof -
  have v: "validate (cl (sample_state 3 []))"
    by (simp add: sample_state_def sample_client_def new_client_def)
  have e: "validate_params ''vice.registers.set'' [] \<noteq> []"
    by (simp add: validate_missing_register)
  from validation_failure_aborts [OF v e, of "scripted_env sample_bodies True"] v e
  show ?thesis by simp
qed

section \<open>The monitor\<close>

lemma round_half_even_close: "\<bar>of_int (round_half_even y) - y\<bar> \<le> 1 / 2"
proof -
  have lo: "of_int \<lfloor>y\<rfloor> \<le> y" by (rule of_int_floor_le)
  have hi: "y < of_int \<lfloor>y\<rfloor> + 1" by linarith
  show ?thesis
    unfolding round_half_even_def Let_def using lo hi by (auto split: if_splits)
qed

lemmas float_defs =
  to_double_def binade_def pow2_def round_half_even_def py_round_def int_truediv_def
  float_truediv_def bit_length.simps Let_def

text \<open>The double written \<open>0.1\<close> is \<open>0x3FB999999999999A\<close>.\<close>

lemma to_double_tenth: "to_double (1 / 10) = 3602879701896397 / 2 ^ 55"
  by (simp add: float_defs)

lemma pow2_pos: "0 < pow2 k"
  by (simp add: pow2_def)

lemma pow2_small:
  assumes "k \<le> - 52"
  shows "pow2 k \<le> 1 / 2 ^ 52"
proof -
  have "(2::real) ^ 52 \<le> 2 ^ nat (- k)"
    using assms by (intro power_increasing) simp_all
  then have "1 / (2::real) ^ nat (- k) \<le> 1 / 2 ^ 52"
    by (intro divide_left_mono) simp_all
  then show ?thesis using assms by (simp add: pow2_def)
qed

lemma binade_unit:
  assumes "0 < x" and "x \<le> 1"
  shows "binade x \<le> 0"
proof (cases "1 \<le> x")
  case True
  with assms have "x = 1" by simp
  then show ?thesis by (simp add: binade_def bit_length.simps)
next
  case False
  then show ?thesis by (simp add: binade_def)
qed

text \<open>Rounding to a double moves a value of the unit interval by at most \<open>2 ^ (- 53)\<close>.\<close>

lemma to_double_unit:
  assumes "0 \<le> x" and "x \<le> 1"
  shows "\<bar>to_double x - x\<bar> \<le> 1 / 2 ^ 53"
proof (cases "x = 0")
  case True
  then show ?thesis by (simp add: to_double_def)
next
  case False
  with assms have pos: "0 < x" by simp
  define u where "u = pow2 (binade \<bar>x\<bar> - 52)"
  define r where "r = round_half_even (\<bar>x\<bar> / u)"
  have u_pos: "0 < u" unfolding u_def by (rule pow2_pos)
  have "binade \<bar>x\<bar> \<le> 0" using pos assms(2) by (simp add: binade_unit)
  then have u_small: "u \<le> 1 / 2 ^ 52" unfolding u_def by (intro pow2_small) simp
  have val: "to_double x = of_int r * u"
    using pos by (simp add: to_double_def Let_def u_def r_def)
  have "\<bar>of_int r - x / u\<bar> \<le> 1 / 2"
    using pos round_half_even_close [of "x / u"] by (simp add: r_def)
  then have "\<bar>of_int r - x / u\<bar> * u \<le> 1 / 2 * u"
    using u_pos by (intro mult_right_mono) simp_all
  moreover have "\<bar>of_int r - x / u\<bar> * u = \<bar>of_int r * u - x\<bar>"
  proof -
    have "\<bar>of_int r - x / u\<bar> * u = \<bar>(of_int r - x / u) * u\<bar>"
      using u_pos by (simp add: abs_mult)
    also have "(of_int r - x / u) * u = of_int r * u - x"
      using u_pos by (simp add: field_simps)
    finally show ?thesis .
  qed
  ultimately have "\<bar>of_int r * u - x\<bar> \<le> 1 / 2 * u" by simp
  also have "\<dots> \<le> 1 / 2 ^ 53" using u_small by simp
  finally show ?thesis by (simp add: val)
qed

text \<open>Hence a rate rounded to four places stays within \<open>0.00005 + 2 ^ (- 52)\<close> of the
  exact quotient.\<close>

lemma rounded_rate_close:
  assumes "0 \<le> q" and "q \<le> 1"
  shows "\<bar>py_round (to_double q) 4 - q\<bar> \<le> 1 / 20000 + 1 / 2 ^ 52"
proof -
  define x where "x = to_double q"
  define k where "k = round_half_even (x * 10 ^ 4)"
  define d :: real where "d = of_int k / 10 ^ 4"
  have xq: "\<bar>x - q\<bar> \<le> 1 / 2 ^ 53"
    unfolding x_def using assms by (rule to_double_unit)
  have ky: "\<bar>of_int k - x * 10 ^ 4\<bar> \<le> 1 / 2"
    unfolding k_def by (rule round_half_even_close)
  then have dx: "\<bar>d - x\<bar> \<le> 1 / 20000"
    by (simp add: d_def abs_le_iff field_simps)
  have xq': "\<bar>x - q\<bar> \<le> 1 / 9007199254740992" using xq by simp
  have ky': "\<bar>of_int k - x * 10000\<bar> \<le> 1 / 2" using ky by simp
  have "- 1 < (of_int k :: real)" using ky' xq' assms(1) by linarith
  then have k_lo: "0 \<le> k" by linarith
  have "(of_int k :: real) < 10001" using ky' xq' assms(2) by linarith
  then have k_hi: "k \<le> 10000" by linarith
  have d_lo: "0 \<le> d" using k_lo by (simp add: d_def)
  have "(of_int k :: real) \<le> 10000" using k_hi by linarith
  then have d_hi: "d \<le> 1" by (simp add: d_def)
  have dd: "\<bar>to_double d - d\<bar> \<le> 1 / 2 ^ 53"
    using d_lo d_hi by (rule to_double_unit)
  have "py_round (to_double q) 4 = to_double d"
    by (simp add: py_round_def d_def k_def x_def)
  moreover have "\<bar>to_double d - d\<bar> \<le> 1 / 9007199254740992" using dd by simp
  ultimately have "\<bar>py_round (to_double q) 4 - q\<bar> \<le> 1 / 20000 + 1 / 4503599627370496"
    using dx xq' by linarith
  then show ?thesis by simp
qed

lemma count_by_tool_lookup:
  "count_by_tool counts es t =
     (if filter (\<lambda>e. tool e = t) es = [] then counts t
      else Some ((case counts t of None \<Rightarrow> 0 | Some k \<Rightarrow> k)
                   + int (length (filter (\<lambda>e. tool e = t) es))))"
proof (induction es arbitrary: counts)
  case Nil
  then show ?case by simp
next
  case (Cons e es)
  show ?case
  proof (cases "tool e = t")
    case True
    then show ?thesis by (simp add: Cons.IH)
  next
    case False
    then show ?thesis by (simp add: Cons.IH)
  qed
qed

lemma filter_same_tool:
  assumes "\<forall>e \<in> set es. tool e = t"
  shows "filter (\<lambda>e. tool e = t) (filter P es) = filter P es"
  using assms by (induction es) auto

lemma length_filter_split:
  "length (filter success es) + length (filter (\<lambda>e. \<not> success e) es) = length es"
  by (induction es) auto

text \<open>
  Claim C7, as the code has it. On an empty log \<open>get_stats\<close> returns
  \<open>total_calls = 0\<close> and \<open>failure_rate = 0.0\<close>. On a log of \<open>n_ok\<close> successful and
  \<open>n_bad\<close> failed entries of one tool, it reports \<open>n_ok + n_bad\<close> calls and \<open>n_bad\<close>
  failures; \<open>failures_by_tool\<close> maps the tool to \<open>n_bad\<close> when there is a failure and
  has no key for it otherwise; and \<open>failure_rate\<close> is \<open>round(n_bad / (n_ok + n_bad), 4)\<close>
  as Python computes it on floats: the quotient rounded to a double, that double rounded
  to four decimal places. It lies within \<open>0.00005 + 2 ^ (- 52)\<close> of the exact quotient.
\<close>

theorem stats_of_log:
  assumes same: "\<forall>e \<in> set (entries m). tool e = t"
    and n_ok: "n_ok = length (filter success (entries m))"
    and n_bad: "n_bad = length (filter (\<lambda>e. \<not> success e) (entries m))"
  shows "(n_ok + n_bad = 0 \<longrightarrow>
            total_calls (get_stats env m) = 0 \<and> failure_rate (get_stats env m) = 0) \<and>
         (0 < n_ok + n_bad \<longrightarrow>
            total_calls (get_stats env m) = int (n_ok + n_bad) \<and>
            failures (get_stats env m) = int n_bad \<and>
            failures_by_tool (get_stats env m) t = (if n_bad = 0 then None else Some (int n_bad)) \<and>
            failure_rate (get_stats env m) = py_round (int_truediv (int n_bad) (int (n_ok + n_bad))) 4 \<and>
            \<bar>failure_rate (get_stats env m) - real n_bad / real (n_ok + n_bad)\<bar>
              \<le> 1 / 20000 + 1 / 2 ^ 52)"
proof -
  have total: "n_ok + n_bad = length (entries m)"
    unfolding n_ok n_bad by (rule length_filter_split)
  let ?fails = "filter (\<lambda>e. \<not> success e) (entries m)"
  have by_tool: "count_by_tool Map.empty ?fails t = (if n_bad = 0 then None else Some (int n_bad))"
    unfolding count_by_tool_lookup filter_same_tool [OF same] n_bad by simp
  show ?thesis
  proof (intro conjI impI)
    assume "n_ok + n_bad = 0"
    then have "entries m = []" using total by simp
    then show "total_calls (get_stats env m) = 0" "failure_rate (get_stats env m) = 0"
      by (simp_all add: get_stats_def)
  next
    assume pos: "0 < n_ok + n_bad"
    then have ne: "length (entries m) \<noteq> 0" using total by simp
    show "total_calls (get_stats env m) = int (n_ok + n_bad)"
      using ne total by (simp add: get_stats_def Let_def)
    show "failures (get_stats env m) = int n_bad"
      using ne n_bad by (simp add: get_stats_def Let_def)
    show "failures_by_tool (get_stats env m) t = (if n_bad = 0 then None else Some (int n_bad))"
      using ne by_tool by (simp add: get_stats_def Let_def)
    show rate: "failure_rate (get_stats env m) =
                  py_round (int_truediv (int n_bad) (int (n_ok + n_bad))) 4"
      using ne total n_bad by (simp add: get_stats_def Let_def)
    have "real n_bad \<le> real (n_ok + n_bad)" by simp
    then have "real n_bad / real (n_ok + n_bad) \<le> 1"
      using pos by (simp only: divide_le_eq_1_pos of_nat_0_less_iff)
    then show "\<bar>failure_rate (get_stats env m) - real n_bad / real (n_ok + n_bad)\<bar>
                 \<le> 1 / 20000 + 1 / 2 ^ 52"
      unfolding rate int_truediv_def using rounded_rate_close [of "real n_bad / real (n_ok + n_bad)"]
      by simp
  qed
qed

text \<open>
  Claim C7 gives \<open>failure_rate\<close> as the quotient itself and \<open>failures_by_tool[tool]\<close>
  as the number of failures. After two successes and one failure the rate is the double
  0.3333, not one third; after one success and no failure the tool has no key in
  \<open>failures_by_tool\<close>.
\<close>

theorem failure_rate_rounded_counterexample:
  "failure_rate (get_stats (scripted_env sample_bodies True)
      (fst (record_outcomes (scripted_env sample_bodies True) ''vice.ping''
         [True, True, False] (sample_monitor, [])))) = to_double (3333 / 10000) \<and>
   failure_rate (get_stats (scripted_env sample_bodies True)
      (fst (record_outcomes (scripted_env sample_bodies True) ''vice.ping''
         [True, True, False] (sample_monitor, [])))) \<noteq> 1 / (2 + 1) \<and>
   failures_by_tool (get_stats (scripted_env sample_bodies True)
      (fst (record_outcomes (scripted_env sample_bodies True) ''vice.ping''
         [True] (sample_monitor, [])))) ''vice.ping'' = None"
proof -
  let ?env = "scripted_env sample_bodies True"
  have rate: "failure_rate (get_stats ?env
      (fst (record_outcomes ?env ''vice.ping'' [True, True, False] (sample_monitor, []))))
      = py_round (int_truediv 1 3) 4"
    by (simp add: get_stats_def record_call_def scripted_env_def sample_monitor_def Let_def)
  have third: "py_round (int_truediv 1 3) 4 = to_double (3333 / 10000)"
    by (simp add: float_defs)
  have differs: "to_double (3333 / 10000) \<noteq> 1 / (2 + 1)"
    by (simp add: float_defs)
  have no_key: "failures_by_tool (get_stats ?env
      (fst (record_outcomes ?env ''vice.ping'' [True] (sample_monitor, [])))) ''vice.ping'' = None"
    by (simp add: get_stats_def record_call_def scripted_env_def sample_monitor_def Let_def)
  show ?thesis
    unfolding rate third using differs no_key by simp
qed

theorem stats_of_log_witness:
  "(let m = fst (record_outcomes (scripted_env sample_bodies True) ''vice.ping''
               [True, True, False] (sample_monitor, []))
    in (\<forall>e \<in> set (entries m). tool e = ''vice.ping'') \<and>
       length (filter success (entries m)) = 2 \<and>
       length (filter (\<lambda>e. \<not> success e) (entries m)) = 1 \<and>
       total_calls (get_stats (scripted_env sample_bodies True) m) = 3 \<and>
       failures_by_tool (get_stats (scripted_env sample_bodies True) m) ''vice.ping'' = Some 1 \<and>
       failure_rate (get_stats (scripted_env sample_bodies True) m) = to_double (3333 / 10000)) \<and>
   (let m = sample_monitor
    in entries m = [] \<and>
       total_calls (get_stats (scripted_env sample_bodies True) m) = 0 \<and>
       failure_rate (get_stats (scripted_env sample_bodies True) m) = 0) \<and>
   (let m = tie_monitor
    in (\<forall>e \<in> set (entries m). tool e = ''vice.ping'') \<and>
       length (filter success (entries m)) = 159 \<and>
       length (filter (\<lambda>e. \<not> success e) (entries m)) = 1 \<and>
       failure_rate (get_stats (scripted_env sample_bodies True) m) = to_double (63 / 10000))"
proof -
  let ?env = "scripted_env sample_bodies True"
  let ?m = "fst (record_outcomes ?env ''vice.ping'' [True, True, False] (sample_monitor, []))"
  have same: "\<forall>e \<in> set (entries ?m). tool e = ''vice.ping''"
    by (simp add: record_call_def scripted_env_def sample_monitor_def Let_def)
  have n_ok: "(2::nat) = length (filter success (entries ?m))"
    by (simp add: record_call_def scripted_env_def sample_monitor_def Let_def)
  have n_bad: "(1::nat) = length (filter (\<lambda>e. \<not> success e) (entries ?m))"
    by (simp add: record_call_def scripted_env_def sample_monitor_def Let_def)
  have third: "py_round (int_truediv 1 3) 4 = to_double (3333 / 10000)"
    by (simp add: float_defs)
  have same0: "\<forall>e \<in> set (entries sample_monitor). tool e = ''vice.ping''"
    by (simp add: sample_monitor_def)
  have n0: "(0::nat) = length (filter success (entries sample_monitor))"
    "(0::nat) = length (filter (\<lambda>e. \<not> success e) (entries sample_monitor))"
    by (simp_all add: sample_monitor_def)
  have e0: "entries sample_monitor = []" by (simp add: sample_monitor_def)
  have same1: "\<forall>e \<in> set (entries tie_monitor). tool e = ''vice.ping''"
    by (auto simp add: tie_monitor_def sample_entry_def)
  have n1: "(159::nat) = length (filter success (entries tie_monitor))"
    "(1::nat) = length (filter (\<lambda>e. \<not> success e) (entries tie_monitor))"
    by (simp_all add: tie_monitor_def sample_entry_def)
  have tie: "py_round (int_truediv 1 160) 4 = to_double (63 / 10000)"
    by (simp add: float_defs)
  note a = stats_of_log [OF same n_ok n_bad, of ?env]
  note b = stats_of_log [OF same0 n0, of ?env]
  note c = stats_of_log [OF same1 n1, of ?env]
  have first: "total_calls (get_stats ?env ?m) = 3 \<and>
      failures_by_tool (get_stats ?env ?m) ''vice.ping'' = Some 1 \<and>
      failure_rate (get_stats ?env ?m) = to_double (3333 / 10000)"
    using a third by simp
  have second: "total_calls (get_stats ?env sample_monitor) = 0 \<and>
      failure_rate (get_stats ?env sample_monitor) = 0"
    using b by simp
  have third_log: "failure_rate (get_stats ?env tie_monitor) = to_double (63 / 10000)"
    using c tie by simp
  show ?thesis
    unfolding Let_def
    using same n_ok [symmetric] n_bad [symmetric] first e0 second same1 n1 [symmetric] third_log
    by blast
qed

text \<open>
  Claim C9. \<open>record\<close> always appends the entry to the list in memory. When writing the
  log file raises \<open>OSError\<close>, \<open>record\<close> still returns, with that same list. The entry
  then counts in \<open>get_stats\<close>, and a failed entry is the last one returned by
  \<open>get_recent_failures(n)\<close> for every \<open>n \<ge> 0\<close>.
\<close>

theorem record_appends_entry:
  "entries (fst (record_call env m tool_name dur succ err code retries fallback w)) =
     entries m @ [\<lparr>ts = utcnow_iso env w, tool = tool_name, duration_ms = py_round dur 2,
                   success = succ, error = err, error_code = code, retry_count = retries,
                   fallback_used = fallback\<rparr>] \<and>
   (fst (append_line env (log_path m)
           \<lparr>ts = utcnow_iso env w, tool = tool_name, duration_ms = py_round dur 2,
            success = succ, error = err, error_code = code, retry_count = retries,
            fallback_used = fallback\<rparr> w) = Some msg \<longrightarrow>
      record_call env m tool_name dur succ err code retries fallback w =
        (m\<lparr>entries := entries m @ [\<lparr>ts = utcnow_iso env w, tool = tool_name,
              duration_ms = py_round dur 2, success = succ, error = err, error_code = code,
              retry_count = retries, fallback_used = fallback\<rparr>]\<rparr>,
         snd (append_line env (log_path m)
           \<lparr>ts = utcnow_iso env w, tool = tool_name, duration_ms = py_round dur 2,
            success = succ, error = err, error_code = code, retry_count = retries,
            fallback_used = fallback\<rparr> w))) \<and>
   total_calls (get_stats env (fst (record_call env m tool_name dur succ err code retries fallback w)))
     = int (length (entries m)) + 1 \<and>
   (\<not> succ \<longrightarrow> 0 \<le> n \<longrightarrow>
      get_recent_failures (fst (record_call env m tool_name dur succ err code retries fallback w)) n
        \<noteq> [] \<and>
      last (get_recent_failures
              (fst (record_call env m tool_name dur succ err code retries fallback w)) n) =
        \<lparr>ts = utcnow_iso env w, tool = tool_name, duration_ms = py_round dur 2,
         success = succ, error = err, error_code = code, retry_count = retries,
         fallback_used = fallback\<rparr>)"
proof -
  let ?e = "\<lparr>ts = utcnow_iso env w, tool = tool_name, duration_ms = py_round dur 2,
             success = succ, error = err, error_code = code, retry_count = retries,
             fallback_used = fallback\<rparr>"
  let ?m' = "fst (record_call env m tool_name dur succ err code retries fallback w)"
  have rc: "record_call env m tool_name dur succ err code retries fallback w =
              (m\<lparr>entries := entries m @ [?e]\<rparr>, snd (append_line env (log_path m) ?e w))"
    by (simp add: record_call_def Let_def split: prod.split option.split)
  have ent: "entries ?m' = entries m @ [?e]" by (simp add: rc)
  have tot: "total_calls (get_stats env ?m') = int (length (entries m)) + 1"
    by (simp add: get_stats_def Let_def ent)
  have recent: "get_recent_failures ?m' n \<noteq> [] \<and> last (get_recent_failures ?m' n) = ?e"
    if "\<not> succ" "0 \<le> n"
  proof -
    let ?old = "filter (\<lambda>e. \<not> success e) (entries m)"
    have fails: "filter (\<lambda>e. \<not> success e) (entries ?m') = ?old @ [?e]"
      unfolding ent using that(1) by simp
    have tail: "drop k (?old @ [?e]) \<noteq> [] \<and> last (drop k (?old @ [?e])) = ?e"
      if "k \<le> length ?old" for k
      using that by simp
    show ?thesis
    proof (cases "n = 0")
      case True
      then have "get_recent_failures ?m' n = drop 0 (?old @ [?e])"
        by (simp add: get_recent_failures_def slice_from_def fails)
      then show ?thesis using tail [of 0] by simp
    next
      case False
      with that(2) have pos: "0 < n" by simp
      let ?k = "nat (int (length (?old @ [?e])) + - n)"
      have "get_recent_failures ?m' n = drop ?k (?old @ [?e])"
        unfolding get_recent_failures_def slice_from_def fails using pos by simp
      moreover have "?k \<le> length ?old" using pos by simp
      ultimately show ?thesis using tail [of ?k] by simp
    qed
  qed
  show ?thesis using rc ent tot recent by simp
qed

theorem record_appends_entry_witness:
  "fst (append_line (scripted_env sample_bodies False) (log_path sample_monitor)
          \<lparr>ts = utcnow_iso (scripted_env sample_bodies False) [], tool = ''vice.ping'',
           duration_ms = py_round 12 2, success = False, error = Some ''refused'',
           error_code = PNone, retry_count = 3, fallback_used = False\<rparr> [])
     = Some ''[Errno 28] No space left on device'' \<and>
   entries (fst (record_call (scripted_env sample_bodies False) sample_monitor ''vice.ping'' 12
                   False (Some ''refused'') PNone 3 False [])) =
     [\<lparr>ts = ''2026-01-01T00:00:00+00:00'', tool = ''vice.ping'', duration_ms = 12,
       success = False, error = Some ''refused'', error_code = PNone, retry_count = 3,
       fallback_used = False\<rparr>] \<and>
   total_calls (get_stats (scripted_env sample_bodies False) (fst (record_call (scripted_env sample_bodies False) sample_monitor
                   ''vice.ping'' 12 False (Some ''refused'') PNone 3 False []))) = 1 \<and>
   last (get_recent_failures (fst (record_call (scripted_env sample_bodies False) sample_monitor
                   ''vice.ping'' 12 False (Some ''refused'') PNone 3 False [])) 10) =
     \<lparr>ts = ''2026-01-01T00:00:00+00:00'', tool = ''vice.ping'', duration_ms = 12,
       success = False, error = Some ''refused'', error_code = PNone, retry_count = 3,
       fallback_used = False\<rparr>"
proof -
  have ts: "utcnow_iso (scripted_env sample_bodies False) [] = ''2026-01-01T00:00:00+00:00''"
    by (simp add: scripted_env_def)
  have r: "py_round 12 2 = 12"
    by (simp add: float_defs)
  have ap: "append_line (scripted_env sample_bodies False) p e [] =
              (Some ''[Errno 28] No space left on device'', [])" for p e
    by (simp add: scripted_env_def)
  have ent0: "entries sample_monitor = []"
    by (simp add: sample_monitor_def)
  note t = record_appends_entry [of "scripted_env sample_bodies False" sample_monitor
      "''vice.ping''" 12 False "Some ''refused''" PNone 3 False "[]"
      "''[Errno 28] No space left on device''" 10]
  show ?thesis
  proof (intro conjI)
    show "fst (append_line (scripted_env sample_bodies False) (log_path sample_monitor)
          \<lparr>ts = utcnow_iso (scripted_env sample_bodies False) [], tool = ''vice.ping'',
           duration_ms = py_round 12 2, success = False, error = Some ''refused'',
           error_code = PNone, retry_count = 3, fallback_used = False\<rparr> [])
     = Some ''[Errno 28] No space left on device''"
      by (simp add: ap)
    show "entries (fst (record_call (scripted_env sample_bodies False) sample_monitor ''vice.ping'' 12
                   False (Some ''refused'') PNone 3 False [])) =
     [\<lparr>ts = ''2026-01-01T00:00:00+00:00'', tool = ''vice.ping'', duration_ms = 12,
       success = False, error = Some ''refused'', error_code = PNone, retry_count = 3,
       fallback_used = False\<rparr>]"
      using t [THEN conjunct1] by (simp add: ts r ent0)
    show "total_calls (get_stats (scripted_env sample_bodies False) (fst (record_call (scripted_env sample_bodies False) sample_monitor
                   ''vice.ping'' 12 False (Some ''refused'') PNone 3 False []))) = 1"
      using t [THEN conjunct2, THEN conjunct2, THEN conjunct1] by (simp add: ent0)
    show "last (get_recent_failures (fst (record_call (scripted_env sample_bodies False) sample_monitor
                   ''vice.ping'' 12 False (Some ''refused'') PNone 3 False [])) 10) =
     \<lparr>ts = ''2026-01-01T00:00:00+00:00'', tool = ''vice.ping'', duration_ms = 12,
       success = False, error = Some ''refused'', error_code = PNone, retry_count = 3,
       fallback_used = False\<rparr>"
      using t [THEN conjunct2, THEN conjunct2, THEN conjunct2] by (simp add: ts r)
  qed
qed

section \<open>The call engine\<close>

subsection \<open>One iteration\<close>

lemma record_call_eq:
  "record_call env m tool_name dur succ err code retries fallback w =
     (m\<lparr>entries := entries m @
         [\<lparr>ts = utcnow_iso env w, tool = tool_name, duration_ms = py_round dur 2,
           success = succ, error = err, error_code = code, retry_count = retries,
           fallback_used = fallback\<rparr>]\<rparr>,
      snd (append_line env (log_path m)
             \<lparr>ts = utcnow_iso env w, tool = tool_name, duration_ms = py_round dur 2,
              success = succ, error = err, error_code = code, retry_count = retries,
              fallback_used = fallback\<rparr> w))"
  by (simp add: record_call_def Let_def split: prod.split option.split)

lemma record_in_trace [simp]:
  "trace (record_in env s tool_name start succ err code retries fallback) = trace s"
  by (simp add: record_in_def record_call_eq Let_def)

lemma record_in_entries:
  "entries (monitor (cl (record_in env s tool_name start succ err code retries fallback))) =
     entries (monitor (cl s)) @
       [\<lparr>ts = utcnow_iso env (world s), tool = tool_name,
         duration_ms = py_round ((monotonic env (world s) - start) * 1000) 2,
         success = succ, error = err, error_code = code, retry_count = retries,
         fallback_used = fallback\<rparr>]"
  by (simp add: record_in_def record_call_eq Let_def)

lemma record_in_config [simp]:
  "id_counter (cl (record_in env s tool_name start succ err code retries fallback)) = id_counter (cl s)"
  "max_retries (cl (record_in env s tool_name start succ err code retries fallback)) = max_retries (cl s)"
  by (simp_all add: record_in_def record_call_eq Let_def)

lemma serialisable_payloads [simp]:
  "json_serialisable (mcp_payload tool_name arguments i) = json_serialisable (PDict arguments)"
  "json_serialisable (direct_payload tool_name arguments i) = json_serialisable (PDict arguments)"
  by (simp_all add: mcp_payload_def direct_payload_def)

lemma in_protocol_codes_hashable: "in_protocol_codes v \<Longrightarrow> hashable v"
  by (cases v) simp_all

lemma decode_protocol_band:
  assumes "json_loads env body = Inr (PDict data)" and "map_of data ''error'' = Some err"
    and "in_protocol_codes (err_code err)"
  shows "decode env body =
           Inl (vice_error ViceMCPProtocolError (py_str env (err_message env err))
                  (err_code err) (err_data err))"
  using assms in_protocol_codes_hashable [OF assms(3)]
  by (simp add: decode_def parse_response_def unwrap_result_def Let_def)

lemma decode_tool_error:
  assumes "json_loads env body = Inr (PDict data)" and "map_of data ''error'' = Some err"
    and "hashable (err_code err)" and "\<not> in_protocol_codes (err_code err)"
  shows "decode env body =
           Inl (vice_error ViceMCPToolError (py_str env (err_message env err))
                  (err_code err) (err_data err))"
  using assms
  by (simp add: decode_def parse_response_def unwrap_result_def Let_def)

text \<open>One iteration, once the arguments are known to serialise.\<close>

lemma attempt_body_wrapped:
  assumes "json_serialisable (PDict arguments)"
    and "http_post env (base_url (cl s))
           (mcp_payload tool_name arguments (id_counter (cl s) + 1))
           (timeout (cl s) * (3 / 2) ^ nat attempt) (world s) = (response, w)"
  shows "attempt_body env tool_name arguments start attempt s last_error False =
           (case receive env response of
              Inr result \<Rightarrow>
                Step_return result
                  (record_in env
                     (sent s (mcp_payload tool_name arguments (id_counter (cl s) + 1))
                        (timeout (cl s) * (3 / 2) ^ nat attempt) w)
                     tool_name start True None PNone attempt False)
            | Inl exc \<Rightarrow>
                handle_exception env tool_name start attempt
                  (sent s (mcp_payload tool_name arguments (id_counter (cl s) + 1))
                     (timeout (cl s) * (3 / 2) ^ nat attempt) w)
                  last_error False exc)"
  using assms
  by (simp add: attempt_body_def build_mcp_payload_def next_id_def Let_def sent_def
        split: sum.split)

lemma attempt_body_direct:
  assumes "json_serialisable (PDict arguments)"
    and "http_post env (base_url (cl s))
           (direct_payload tool_name arguments (id_counter (cl s) + 1))
           (timeout (cl s) * (3 / 2) ^ nat attempt) (world s) = (response, w)"
  shows "attempt_body env tool_name arguments start attempt s last_error True =
           (case receive env response of
              Inr result \<Rightarrow>
                Step_return result
                  (record_in env
                     (sent s (direct_payload tool_name arguments (id_counter (cl s) + 1))
                        (timeout (cl s) * (3 / 2) ^ nat attempt) w)
                     tool_name start True None PNone attempt True)
            | Inl exc \<Rightarrow>
                handle_exception env tool_name start attempt
                  (sent s (direct_payload tool_name arguments (id_counter (cl s) + 1))
                     (timeout (cl s) * (3 / 2) ^ nat attempt) w)
                  last_error True exc)"
  using assms
  by (simp add: attempt_body_def build_direct_payload_def next_id_def Let_def sent_def
        split: sum.split)

lemma sent_fields [simp]:
  "trace (sent s payload t w) = trace s @ [Post (base_url (cl s)) payload t]"
  "world (sent s payload t w) = w"
  "id_counter (cl (sent s payload t w)) = id_counter (cl s) + 1"
  "monitor (cl (sent s payload t w)) = monitor (cl s)"
  "max_retries (cl (sent s payload t w)) = max_retries (cl s)"
  "retry_delay (cl (sent s payload t w)) = retry_delay (cl s)"
  "timeout (cl (sent s payload t w)) = timeout (cl s)"
  "base_url (cl (sent s payload t w)) = base_url (cl s)"
  by (simp_all add: sent_def)

lemma slept_fields [simp]:
  "trace (slept env d s) = trace s @ [Sleep d]"
  "world (slept env d s) = sleep env d (world s)"
  "cl (slept env d s) = cl s"
  by (simp_all add: slept_def)

lemma handle_protocol_first:
  assumes "exc_class exc = ViceMCPProtocolError"
  shows "handle_exception env tool_name start attempt s last_error False exc =
           Step_continue s (Some exc) True"
  using assms by (simp add: handle_exception_def)

lemma handle_oserror:
  assumes "exc_class exc = OSError" and "0 \<le> retry_delay (cl s)"
  shows "handle_exception env tool_name start attempt s last_error fallback exc =
           (if attempt < max_retries (cl s)
            then Step_continue (slept env (retry_delay (cl s) * 2 ^ nat attempt) s) (Some exc)
                   fallback
            else Step_continue s (Some exc) fallback)"
proof -
  have "\<not> retry_delay (cl s) * 2 ^ nat attempt < 0"
    using assms(2) by (simp add: not_less)
  then show ?thesis
    using assms(1) by (simp add: handle_exception_def back_off_def do_sleep_def slept_def)
qed

lemma first_attempt_tool_error:
  assumes retries: "0 \<le> max_retries (cl s)"
    and ser: "json_serialisable (PDict arguments)"
    and post: "http_post env (base_url (cl s))
                 (mcp_payload tool_name arguments (id_counter (cl s) + 1))
                 (timeout (cl s)) (world s) = (response, w)"
    and raised: "receive env response = Inl exc"
    and cls: "exc_class exc = ViceMCPToolError"
  shows "call_raw env tool_name arguments s =
           (Raised exc,
            record_in env
              (sent s (mcp_payload tool_name arguments (id_counter (cl s) + 1)) (timeout (cl s)) w)
              tool_name (monotonic env (world s)) False None PNone 0 False)"
proof -
  have range: "[0 .. max_retries (cl s)] = 0 # [1 .. max_retries (cl s)]"
    using retries by (simp add: upto_rec1)
  have step: "attempt_body env tool_name arguments (monotonic env (world s)) 0 s None False =
                Step_raise exc
                  (record_in env
                     (sent s (mcp_payload tool_name arguments (id_counter (cl s) + 1))
                        (timeout (cl s)) w)
                     tool_name (monotonic env (world s)) False None PNone 0 False)"
  proof -
    have "http_post env (base_url (cl s))
            (mcp_payload tool_name arguments (id_counter (cl s) + 1))
            (timeout (cl s) * (3 / 2) ^ nat 0) (world s) = (response, w)"
      using post by simp
    from attempt_body_wrapped [OF ser this] raised cls show ?thesis
      by (simp add: handle_exception_def getattr_code_def)
  qed
  show ?thesis
    by (simp add: call_raw_def Let_def range step)
qed

subsection \<open>Evaluating the sample runs\<close>

lemmas run_defs =
  call_def call_raw_def attempt_body_def receive_def decode_def parse_response_def
  unwrap_result_def unwrap_content_def handle_exception_def back_off_def do_sleep_def
  record_in_def record_call_eq build_mcp_payload_def build_direct_payload_def next_id_def
  exhausted_error_def getattr_code_def vice_error_def err_code_def err_message_def
  err_data_def dict_get_def py_str_def PROTOCOL_ERROR_CODES_def

lemmas sample_defs =
  scripted_env_def sample_bodies_def sample_state_def sample_client_def new_client_def
  sample_monitor_def error_response_def not_found_error_def invalid_address_error_def
  invalid_request_error_def
  connection_refused_def mcp_payload_def direct_payload_def

lemma range_0_1: "[0 .. (1::int)] = [0, 1]"
  by (simp add: upto.simps)

lemma range_0_3: "[0 .. (3::int)] = [0, 1, 2, 3]"
  by (simp add: upto.simps)

lemma sample_state_fields [simp]:
  "max_retries (cl (sample_state retries w)) = retries"
  "retry_delay (cl (sample_state retries w)) = 1 / 2"
  "timeout (cl (sample_state retries w)) = 10"
  "id_counter (cl (sample_state retries w)) = 0"
  "validate (cl (sample_state retries w)) = True"
  "base_url (cl (sample_state retries w)) = ''http://127.0.0.1:6510/mcp''"
  "entries (monitor (cl (sample_state retries w))) = []"
  "world (sample_state retries w) = w"
  "trace (sample_state retries w) = []"
  by (simp_all add: sample_state_def sample_client_def new_client_def sample_monitor_def
      str_int_def str_nat.simps)

lemma scripted_env_fields [simp]:
  "http_post (scripted_env bodies disk_ok) url payload t (r # rs) = (r, rs)"
  "http_post (scripted_env bodies disk_ok) url payload t [] = (Inl connection_refused, [])"
  "sleep (scripted_env bodies disk_ok) d w = w"
  "json_loads (scripted_env sample_bodies disk_ok) ''not-found''
     = Inr (PDict (error_response not_found_error))"
  "json_loads (scripted_env sample_bodies disk_ok) ''invalid-address''
     = Inr (PDict (error_response invalid_address_error))"
  "json_loads (scripted_env sample_bodies disk_ok) ''invalid-request''
     = Inr (PDict (error_response invalid_request_error))"
  "json_loads (scripted_env sample_bodies disk_ok) ''pong''
     = Inr (PDict [(''jsonrpc'', PStr ''2.0''), (''id'', PInt 1),
                   (''result'', PDict [(''status'', PStr ''ok'')])])"
  by (simp_all add: scripted_env_def sample_bodies_def)

lemma sample_errors [simp]:
  "map_of (error_response err) ''error'' = Some err"
  "err_code not_found_error = PInt (- 32601)"
  "err_code invalid_address_error = PInt (- 32002)"
  "err_code invalid_request_error = PInt (- 32600)"
  "err_data invalid_request_error = PNone"
  "py_str env (err_message env invalid_request_error) = ''Invalid Request''"
  "err_data not_found_error = PNone"
  "err_data invalid_address_error = PNone"
  "py_str env (err_message env not_found_error) = ''Method not found''"
  "py_str env (err_message env invalid_address_error) = ''Invalid address''"
  by (simp_all add: error_response_def not_found_error_def invalid_address_error_def
      invalid_request_error_def err_code_def err_data_def err_message_def dict_get_def py_str_def)

subsection \<open>Fallback to the direct encoding\<close>

text \<open>
  Claim C2. The first attempt, in the wrapped encoding, is answered by an error whose
  code lies in the protocol band; the second, in the direct encoding, is answered by a
  body that decodes to \<open>result\<close>. Then \<open>_call_raw\<close> returns \<open>result\<close>; the two sends
  follow each other in the trace with no sleep between them; and the one entry recorded
  has \<open>success\<close>, \<open>fallback_used\<close> and \<open>retry_count = 1\<close>. A second attempt exists when
  \<open>max_retries\<close> is at least 1.
\<close>

theorem fallback_after_protocol_error:
  assumes retries: "1 \<le> max_retries (cl s)"
    and ser: "json_serialisable (PDict arguments)"
    and post1: "http_post env (base_url (cl s))
                  (mcp_payload tool_name arguments (id_counter (cl s) + 1))
                  (timeout (cl s)) (world s) = (Inr (status1, body1), w1)"
    and body1: "json_loads env body1 = Inr (PDict data)"
    and err: "map_of data ''error'' = Some err"
    and band: "in_protocol_codes (err_code err)"
    and post2: "http_post env (base_url (cl s))
                  (direct_payload tool_name arguments (id_counter (cl s) + 2))
                  (timeout (cl s) * (3 / 2)) w1 = (Inr (status2, body2), w2)"
    and body2: "decode env body2 = Inr result"
  shows "fst (call_raw env tool_name arguments s) = Returned result \<and>
         trace (snd (call_raw env tool_name arguments s)) =
           trace s @
             [Post (base_url (cl s)) (mcp_payload tool_name arguments (id_counter (cl s) + 1))
                (timeout (cl s)),
              Post (base_url (cl s)) (direct_payload tool_name arguments (id_counter (cl s) + 2))
                (timeout (cl s) * (3 / 2))] \<and>
         (\<exists>e. entries (monitor (cl (snd (call_raw env tool_name arguments s)))) =
                 entries (monitor (cl s)) @ [e] \<and>
               success e = True \<and> fallback_used e = True \<and> retry_count e = 1)"
proof -
  let ?start = "monotonic env (world s)"
  let ?exc = "vice_error ViceMCPProtocolError (py_str env (err_message env err))
                (err_code err) (err_data err)"
  let ?s1 = "sent s (mcp_payload tool_name arguments (id_counter (cl s) + 1)) (timeout (cl s)) w1"
  let ?s2 = "sent ?s1 (direct_payload tool_name arguments (id_counter (cl s) + 2))
               (timeout (cl s) * (3 / 2)) w2"
  have range: "[0 .. max_retries (cl s)] = 0 # 1 # [2 .. max_retries (cl s)]"
    using retries by (simp add: upto_rec1)
  have r1: "receive env (Inr (status1, body1)) = Inl ?exc"
    using decode_protocol_band [OF body1 err band] by (simp add: receive_def)
  have p1: "http_post env (base_url (cl s))
              (mcp_payload tool_name arguments (id_counter (cl s) + 1))
              (timeout (cl s) * (3 / 2) ^ nat 0) (world s) = (Inr (status1, body1), w1)"
    using post1 by (simp add: add.commute)
  have step1: "attempt_body env tool_name arguments ?start 0 s None False =
                 Step_continue ?s1 (Some ?exc) True"
    using attempt_body_wrapped [OF ser p1] r1
    by (simp add: handle_protocol_first vice_error_def)
  have r2: "receive env (Inr (status2, body2)) = Inr result"
    using body2 by (simp add: receive_def)
  have p2: "http_post env (base_url (cl ?s1))
              (direct_payload tool_name arguments (id_counter (cl ?s1) + 1))
              (timeout (cl ?s1) * (3 / 2) ^ nat 1) (world ?s1) = (Inr (status2, body2), w2)"
    using post2 by (simp add: add.commute)
  have step2: "attempt_body env tool_name arguments ?start 1 ?s1 (Some ?exc) True =
                 Step_return result
                   (record_in env ?s2 tool_name ?start True None PNone 1 True)"
    using attempt_body_direct [OF ser p2] r2 by (simp add: add.commute)
  have run: "call_raw env tool_name arguments s =
               (Returned result, record_in env ?s2 tool_name ?start True None PNone 1 True)"
    by (simp add: call_raw_def Let_def range step1 step2)
  show ?thesis
    by (simp add: run record_in_entries)
qed

theorem fallback_after_protocol_error_witness:
  "1 \<le> max_retries (cl (sample_state 3 [Inr (200, ''not-found''), Inr (200, ''pong'')])) \<and>
   json_serialisable (PDict []) \<and>
   http_post (scripted_env sample_bodies True)
     (base_url (cl (sample_state 3 [Inr (200, ''not-found''), Inr (200, ''pong'')])))
     (mcp_payload ''vice.ping'' []
        (id_counter (cl (sample_state 3 [Inr (200, ''not-found''), Inr (200, ''pong'')])) + 1))
     (timeout (cl (sample_state 3 [Inr (200, ''not-found''), Inr (200, ''pong'')])))
     (world (sample_state 3 [Inr (200, ''not-found''), Inr (200, ''pong'')]))
     = (Inr (200, ''not-found''), [Inr (200, ''pong'')]) \<and>
   json_loads (scripted_env sample_bodies True) ''not-found''
     = Inr (PDict (error_response not_found_error)) \<and>
   map_of (error_response not_found_error) ''error'' = Some not_found_error \<and>
   in_protocol_codes (err_code not_found_error) \<and>
   http_post (scripted_env sample_bodies True)
     (base_url (cl (sample_state 3 [Inr (200, ''not-found''), Inr (200, ''pong'')])))
     (direct_payload ''vice.ping'' []
        (id_counter (cl (sample_state 3 [Inr (200, ''not-found''), Inr (200, ''pong'')])) + 2))
     (timeout (cl (sample_state 3 [Inr (200, ''not-found''), Inr (200, ''pong'')])) * (3 / 2))
     [Inr (200, ''pong'')]
     = (Inr (200, ''pong''), []) \<and>
   decode (scripted_env sample_bodies True) ''pong'' = Inr (PDict [(''status'', PStr ''ok'')]) \<and>
   fst (call_raw (scripted_env sample_bodies True) ''vice.ping'' []
          (sample_state 3 [Inr (200, ''not-found''), Inr (200, ''pong'')])) =
     Returned (PDict [(''status'', PStr ''ok'')]) \<and>
   trace (snd (call_raw (scripted_env sample_bodies True) ''vice.ping'' []
          (sample_state 3 [Inr (200, ''not-found''), Inr (200, ''pong'')]))) =
     [Post ''http://127.0.0.1:6510/mcp'' (mcp_payload ''vice.ping'' [] 1) 10,
      Post ''http://127.0.0.1:6510/mcp'' (direct_payload ''vice.ping'' [] 2) 15] \<and>
   (\<exists>e. entries (monitor (cl (snd (call_raw (scripted_env sample_bodies True) ''vice.ping'' []
          (sample_state 3 [Inr (200, ''not-found''), Inr (200, ''pong'')]))))) = [e] \<and>
        success e = True \<and> fallback_used e = True \<and> retry_count e = 1)"
proof -
  let ?s = "sample_state 3 [Inr (200, ''not-found''), Inr (200, ''pong'')]"
  let ?env = "scripted_env sample_bodies True"
  have h1: "1 \<le> max_retries (cl ?s)" by simp
  have h2: "json_serialisable (PDict [])" by simp
  have h3: "http_post ?env (base_url (cl ?s))
              (mcp_payload ''vice.ping'' [] (id_counter (cl ?s) + 1))
              (timeout (cl ?s)) (world ?s) = (Inr (200, ''not-found''), [Inr (200, ''pong'')])"
    by simp
  have h4: "json_loads ?env ''not-found'' = Inr (PDict (error_response not_found_error))"
    by simp
  have h5: "map_of (error_response not_found_error) ''error'' = Some not_found_error" by simp
  have h6: "in_protocol_codes (err_code not_found_error)"
    by (simp add: PROTOCOL_ERROR_CODES_def)
  have h7: "http_post ?env (base_url (cl ?s))
              (direct_payload ''vice.ping'' [] (id_counter (cl ?s) + 2))
              (timeout (cl ?s) * (3 / 2)) [Inr (200, ''pong'')] = (Inr (200, ''pong''), [])"
    by simp
  have h8: "decode ?env ''pong'' = Inr (PDict [(''status'', PStr ''ok'')])"
    by (simp add: decode_def parse_response_def unwrap_result_def dict_get_def)
  note t = fallback_after_protocol_error [OF h1 h2 h3 h4 h5 h6 h7 h8]
  from t have c: "fst (call_raw ?env ''vice.ping'' [] ?s) =
     Returned (PDict [(''status'', PStr ''ok'')]) \<and>
   trace (snd (call_raw ?env ''vice.ping'' [] ?s)) =
     [Post ''http://127.0.0.1:6510/mcp'' (mcp_payload ''vice.ping'' [] 1) 10,
      Post ''http://127.0.0.1:6510/mcp'' (direct_payload ''vice.ping'' [] 2) 15] \<and>
   (\<exists>e. entries (monitor (cl (snd (call_raw ?env ''vice.ping'' [] ?s)))) = [e] \<and>
        success e = True \<and> fallback_used e = True \<and> retry_count e = 1)"
    by simp
  from h1 h2 h3 h4 h5 h6 h7 h8 c show ?thesis by blast
qed

subsection \<open>Tool errors\<close>

text \<open>
  Claim C3. The first response carries an error whose code can be hashed and lies outside
  the protocol band. Then \<open>_call_raw\<close> raises \<open>ViceMCPToolError\<close> with the server's
  message, code and data; the trace holds the one send of attempt 0 and no sleep; and
  exactly one entry is recorded, with \<open>success = False\<close> and \<open>retry_count = 0\<close>.
\<close>

theorem tool_error_not_retried:
  assumes "0 \<le> max_retries (cl s)"
    and "json_serialisable (PDict arguments)"
    and "http_post env (base_url (cl s))
           (mcp_payload tool_name arguments (id_counter (cl s) + 1))
           (timeout (cl s)) (world s) = (Inr (status_code, body), w)"
    and "json_loads env body = Inr (PDict data)"
    and "map_of data ''error'' = Some err"
    and "hashable (err_code err)"
    and "\<not> in_protocol_codes (err_code err)"
  shows "fst (call_raw env tool_name arguments s) =
           Raised (vice_error ViceMCPToolError (py_str env (err_message env err))
                     (err_code err) (err_data err)) \<and>
         trace (snd (call_raw env tool_name arguments s)) =
           trace s @ [Post (base_url (cl s))
                        (mcp_payload tool_name arguments (id_counter (cl s) + 1))
                        (timeout (cl s))] \<and>
         (\<exists>e. entries (monitor (cl (snd (call_raw env tool_name arguments s)))) =
                 entries (monitor (cl s)) @ [e] \<and>
               success e = False \<and> retry_count e = 0)"
proof -
  let ?exc = "vice_error ViceMCPToolError (py_str env (err_message env err))
                (err_code err) (err_data err)"
  have dec: "receive env (Inr (status_code, body)) = Inl ?exc"
    using decode_tool_error [OF assms(4-7)] by (simp add: receive_def)
  have cls: "exc_class ?exc = ViceMCPToolError" by (simp add: vice_error_def)
  note run = first_attempt_tool_error [OF assms(1,2,3) dec cls]
  show ?thesis
    by (simp add: run record_in_entries)
qed

theorem tool_error_not_retried_witness:
  "0 \<le> max_retries (cl (sample_state 3 [Inr (200, ''invalid-address'')])) \<and>
   json_serialisable (PDict []) \<and>
   http_post (scripted_env sample_bodies True)
     (base_url (cl (sample_state 3 [Inr (200, ''invalid-address'')])))
     (mcp_payload ''vice.ping'' []
        (id_counter (cl (sample_state 3 [Inr (200, ''invalid-address'')])) + 1))
     (timeout (cl (sample_state 3 [Inr (200, ''invalid-address'')])))
     (world (sample_state 3 [Inr (200, ''invalid-address'')]))
     = (Inr (200, ''invalid-address''), []) \<and>
   json_loads (scripted_env sample_bodies True) ''invalid-address''
     = Inr (PDict (error_response invalid_address_error)) \<and>
   map_of (error_response invalid_address_error) ''error'' = Some invalid_address_error \<and>
   hashable (err_code invalid_address_error) \<and>
   \<not> in_protocol_codes (err_code invalid_address_error) \<and>
   fst (call_raw (scripted_env sample_bodies True) ''vice.ping'' []
          (sample_state 3 [Inr (200, ''invalid-address'')])) =
     Raised (vice_error ViceMCPToolError ''Invalid address'' (PInt (- 32002)) PNone) \<and>
   trace (snd (call_raw (scripted_env sample_bodies True) ''vice.ping'' []
                 (sample_state 3 [Inr (200, ''invalid-address'')]))) =
     [Post ''http://127.0.0.1:6510/mcp'' (mcp_payload ''vice.ping'' [] 1) 10] \<and>
   (\<exists>e. entries (monitor (cl (snd (call_raw (scripted_env sample_bodies True) ''vice.ping'' []
                 (sample_state 3 [Inr (200, ''invalid-address'')]))))) = [e] \<and>
        success e = False \<and> retry_count e = 0)"
proof -
  let ?s = "sample_state 3 [Inr (200, ''invalid-address'')]"
  let ?env = "scripted_env sample_bodies True"
  have h1: "0 \<le> max_retries (cl ?s)" by simp
  have h2: "json_serialisable (PDict [])" by simp
  have h3: "http_post ?env (base_url (cl ?s))
              (mcp_payload ''vice.ping'' [] (id_counter (cl ?s) + 1))
              (timeout (cl ?s)) (world ?s) = (Inr (200, ''invalid-address''), [])"
    by simp
  have h4: "json_loads ?env ''invalid-address''
              = Inr (PDict (error_response invalid_address_error))" by simp
  have h5: "map_of (error_response invalid_address_error) ''error'' = Some invalid_address_error"
    by simp
  have h6: "hashable (err_code invalid_address_error)" by simp
  have h7: "\<not> in_protocol_codes (err_code invalid_address_error)"
    by (simp add: PROTOCOL_ERROR_CODES_def)
  note t = tool_error_not_retried [OF h1 h2 h3 h4 h5 h6 h7]
  from t have c: "fst (call_raw ?env ''vice.ping'' [] ?s) =
     Raised (vice_error ViceMCPToolError ''Invalid address'' (PInt (- 32002)) PNone) \<and>
   trace (snd (call_raw ?env ''vice.ping'' [] ?s)) =
     [Post ''http://127.0.0.1:6510/mcp'' (mcp_payload ''vice.ping'' [] 1) 10] \<and>
   (\<exists>e. entries (monitor (cl (snd (call_raw ?env ''vice.ping'' [] ?s)))) = [e] \<and>
        success e = False \<and> retry_count e = 0)"
    by simp
  from h1 h2 h3 h4 h5 h6 h7 c show ?thesis by blast
qed

text \<open>
  Claim C10. When the first attempt raises \<open>ViceMCPToolError\<close>, that error is raised to
  the caller and the entry recorded for the call has \<open>error = None\<close> and
  \<open>error_code = None\<close>: the entry is built from \<open>last_error\<close>, which is still unset.
\<close>

theorem tool_error_logged_without_message:
  assumes "0 \<le> max_retries (cl s)"
    and "json_serialisable (PDict arguments)"
    and "http_post env (base_url (cl s))
           (mcp_payload tool_name arguments (id_counter (cl s) + 1))
           (timeout (cl s)) (world s) = (response, w)"
    and "receive env response = Inl exc"
    and "exc_class exc = ViceMCPToolError"
  shows "fst (call_raw env tool_name arguments s) = Raised exc \<and>
         (\<exists>e. entries (monitor (cl (snd (call_raw env tool_name arguments s)))) =
                 entries (monitor (cl s)) @ [e] \<and>
               success e = False \<and> error e = None \<and> error_code e = PNone)"
proof -
  let ?sent = "sent s (mcp_payload tool_name arguments (id_counter (cl s) + 1)) (timeout (cl s)) w"
  have run: "call_raw env tool_name arguments s =
               (Raised exc,
                record_in env ?sent tool_name (monotonic env (world s)) False None PNone 0 False)"
    using assms by (rule first_attempt_tool_error)
  have "entries (monitor (cl (snd (call_raw env tool_name arguments s)))) =
          entries (monitor (cl s)) @
            [\<lparr>ts = utcnow_iso env w, tool = tool_name,
              duration_ms = py_round ((monotonic env w - monotonic env (world s)) * 1000) 2,
              success = False, error = None, error_code = PNone, retry_count = 0,
              fallback_used = False\<rparr>]"
    by (simp add: run record_in_entries)
  then show ?thesis by (simp add: run)
qed

theorem tool_error_logged_without_message_witness:
  "0 \<le> max_retries (cl (sample_state 3 [Inr (200, ''invalid-address'')])) \<and>
   json_serialisable (PDict []) \<and>
   http_post (scripted_env sample_bodies True)
     (base_url (cl (sample_state 3 [Inr (200, ''invalid-address'')])))
     (mcp_payload ''vice.ping'' []
        (id_counter (cl (sample_state 3 [Inr (200, ''invalid-address'')])) + 1))
     (timeout (cl (sample_state 3 [Inr (200, ''invalid-address'')])))
     (world (sample_state 3 [Inr (200, ''invalid-address'')]))
     = (Inr (200, ''invalid-address''), []) \<and>
   receive (scripted_env sample_bodies True) (Inr (200, ''invalid-address'')) =
     Inl (vice_error ViceMCPToolError ''Invalid address'' (PInt (- 32002)) PNone) \<and>
   exc_class (vice_error ViceMCPToolError ''Invalid address'' (PInt (- 32002)) PNone)
     = ViceMCPToolError \<and>
   fst (call_raw (scripted_env sample_bodies True) ''vice.ping'' []
          (sample_state 3 [Inr (200, ''invalid-address'')])) =
     Raised (vice_error ViceMCPToolError ''Invalid address'' (PInt (- 32002)) PNone) \<and>
   (\<exists>e. entries (monitor (cl (snd (call_raw (scripted_env sample_bodies True) ''vice.ping'' []
                 (sample_state 3 [Inr (200, ''invalid-address'')]))))) = [e] \<and>
        success e = False \<and> error e = None \<and> error_code e = PNone)"
proof -
  let ?s = "sample_state 3 [Inr (200, ''invalid-address'')]"
  let ?env = "scripted_env sample_bodies True"
  let ?exc = "vice_error ViceMCPToolError ''Invalid address'' (PInt (- 32002)) PNone"
  have h1: "0 \<le> max_retries (cl ?s)" by simp
  have h2: "json_serialisable (PDict [])" by simp
  have h3: "http_post ?env (base_url (cl ?s))
              (mcp_payload ''vice.ping'' [] (id_counter (cl ?s) + 1))
              (timeout (cl ?s)) (world ?s) = (Inr (200, ''invalid-address''), [])"
    by simp
  have h4: "receive ?env (Inr (200, ''invalid-address'')) = Inl ?exc"
    using decode_tool_error [of ?env "''invalid-address''" "error_response invalid_address_error"
        invalid_address_error]
    by (simp add: receive_def PROTOCOL_ERROR_CODES_def)
  have h5: "exc_class ?exc = ViceMCPToolError" by (simp add: vice_error_def)
  note t = tool_error_logged_without_message [OF h1 h2 h3 h4 h5]
  from t have c: "fst (call_raw ?env ''vice.ping'' [] ?s) = Raised ?exc \<and>
   (\<exists>e. entries (monitor (cl (snd (call_raw ?env ''vice.ping'' [] ?s)))) = [e] \<and>
        success e = False \<and> error e = None \<and> error_code e = PNone)"
    by simp
  from h1 h2 h3 h4 h5 c show ?thesis by blast
qed

subsection \<open>Connection errors\<close>

text \<open>
  Claim C4. With \<open>max_retries = 3\<close>, a delay that is not negative and a positive base
  timeout, let each of the four sends of a call fail with an \<open>OSError\<close> (\<open>e0\<close> to \<open>e3\<close>,
  the sleeps between them as the code makes them). Then exactly four sends occur, the
  send of attempt \<open>k\<close> has the timeout \<open>timeout * 1.5 ^ k\<close>, each timeout is strictly
  above the one before, and \<open>_call_raw\<close> raises \<open>ViceMCPConnectionError\<close> with the
  message \<open>"Failed to connect after 4 attempts: "\<close> followed by the message of \<open>e3\<close>,
  after recording one failed entry with \<open>retry_count = 3\<close>.
\<close>

theorem connection_errors_exhaust_retries:
  assumes retries: "max_retries (cl s) = 3"
    and ser: "json_serialisable (PDict arguments)"
    and delay: "0 \<le> retry_delay (cl s)"
    and positive: "0 < timeout (cl s)"
    and post0: "http_post env (base_url (cl s))
                  (mcp_payload tool_name arguments (id_counter (cl s) + 1))
                  (timeout (cl s)) (world s) = (Inl e0, w0)"
    and post1: "http_post env (base_url (cl s))
                  (mcp_payload tool_name arguments (id_counter (cl s) + 2))
                  (timeout (cl s) * (3 / 2)) (sleep env (retry_delay (cl s)) w0) = (Inl e1, w1)"
    and post2: "http_post env (base_url (cl s))
                  (mcp_payload tool_name arguments (id_counter (cl s) + 3))
                  (timeout (cl s) * (3 / 2) ^ 2) (sleep env (retry_delay (cl s) * 2) w1)
                  = (Inl e2, w2)"
    and post3: "http_post env (base_url (cl s))
                  (mcp_payload tool_name arguments (id_counter (cl s) + 4))
                  (timeout (cl s) * (3 / 2) ^ 3) (sleep env (retry_delay (cl s) * 4) w2)
                  = (Inl e3, w3)"
    and classes: "exc_class e0 = OSError" "exc_class e1 = OSError" "exc_class e2 = OSError"
      "exc_class e3 = OSError"
  shows "fst (call_raw env tool_name arguments s) =
           Raised (vice_error ViceMCPConnectionError
                     (''Failed to connect after 4 attempts: '' @ exc_str e3) (PInt 0) PNone) \<and>
         trace (snd (call_raw env tool_name arguments s)) =
           trace s @
             [Post (base_url (cl s)) (mcp_payload tool_name arguments (id_counter (cl s) + 1))
                (timeout (cl s) * (3 / 2) ^ 0),
              Sleep (retry_delay (cl s)),
              Post (base_url (cl s)) (mcp_payload tool_name arguments (id_counter (cl s) + 2))
                (timeout (cl s) * (3 / 2) ^ 1),
              Sleep (retry_delay (cl s) * 2),
              Post (base_url (cl s)) (mcp_payload tool_name arguments (id_counter (cl s) + 3))
                (timeout (cl s) * (3 / 2) ^ 2),
              Sleep (retry_delay (cl s) * 4),
              Post (base_url (cl s)) (mcp_payload tool_name arguments (id_counter (cl s) + 4))
                (timeout (cl s) * (3 / 2) ^ 3)] \<and>
         timeout (cl s) * (3 / 2) ^ 0 < timeout (cl s) * (3 / 2) ^ 1 \<and>
         timeout (cl s) * (3 / 2) ^ 1 < timeout (cl s) * (3 / 2) ^ 2 \<and>
         timeout (cl s) * (3 / 2) ^ 2 < timeout (cl s) * (3 / 2) ^ 3 \<and>
         (\<exists>e. entries (monitor (cl (snd (call_raw env tool_name arguments s)))) =
                 entries (monitor (cl s)) @ [e] \<and>
               success e = False \<and> retry_count e = 3 \<and> error e = Some (exc_str e3))"
proof -
  let ?start = "monotonic env (world s)"
  let ?d = "retry_delay (cl s)"
  let ?t = "timeout (cl s)"
  let ?a0 = "sent s (mcp_payload tool_name arguments (id_counter (cl s) + 1)) ?t w0"
  let ?b0 = "slept env ?d ?a0"
  let ?a1 = "sent ?b0 (mcp_payload tool_name arguments (id_counter (cl s) + 2)) (?t * (3 / 2)) w1"
  let ?b1 = "slept env (?d * 2) ?a1"
  let ?a2 = "sent ?b1 (mcp_payload tool_name arguments (id_counter (cl s) + 3)) (?t * (3 / 2) ^ 2) w2"
  let ?b2 = "slept env (?d * 4) ?a2"
  let ?a3 = "sent ?b2 (mcp_payload tool_name arguments (id_counter (cl s) + 4)) (?t * (3 / 2) ^ 3) w3"
  have range: "[0 .. max_retries (cl s)] = [0, 1, 2, 3]"
    using retries by (simp add: upto_rec1)
  have p0: "http_post env (base_url (cl s))
              (mcp_payload tool_name arguments (id_counter (cl s) + 1))
              (timeout (cl s) * (3 / 2) ^ nat 0) (world s) = (Inl e0, w0)"
    using post0 by simp
  have step0: "attempt_body env tool_name arguments ?start 0 s None False =
                 Step_continue ?b0 (Some e0) False"
    using attempt_body_wrapped [OF ser p0] classes(1) delay retries
    by (simp add: receive_def handle_oserror add.commute)
  have p1: "http_post env (base_url (cl ?b0))
              (mcp_payload tool_name arguments (id_counter (cl ?b0) + 1))
              (timeout (cl ?b0) * (3 / 2) ^ nat 1) (world ?b0) = (Inl e1, w1)"
    using post1 by (simp add: add.commute)
  have step1: "attempt_body env tool_name arguments ?start 1 ?b0 (Some e0) False =
                 Step_continue ?b1 (Some e1) False"
    using attempt_body_wrapped [OF ser p1] classes(2) delay retries
    by (simp add: receive_def handle_oserror add.commute)
  have p2: "http_post env (base_url (cl ?b1))
              (mcp_payload tool_name arguments (id_counter (cl ?b1) + 1))
              (timeout (cl ?b1) * (3 / 2) ^ nat 2) (world ?b1) = (Inl e2, w2)"
    using post2 by (simp add: add.commute)
  have step2: "attempt_body env tool_name arguments ?start 2 ?b1 (Some e1) False =
                 Step_continue ?b2 (Some e2) False"
    using attempt_body_wrapped [OF ser p2] classes(3) delay retries
    by (simp add: receive_def handle_oserror add.commute)
  have p3: "http_post env (base_url (cl ?b2))
              (mcp_payload tool_name arguments (id_counter (cl ?b2) + 1))
              (timeout (cl ?b2) * (3 / 2) ^ nat 3) (world ?b2) = (Inl e3, w3)"
    using post3 by (simp add: add.commute)
  have step3: "attempt_body env tool_name arguments ?start 3 ?b2 (Some e2) False =
                 Step_continue ?a3 (Some e3) False"
    using attempt_body_wrapped [OF ser p3] classes(4) delay retries
    by (simp add: receive_def handle_oserror add.commute)
  have loop: "call_loop env tool_name arguments ?start [0 .. max_retries (cl s)] s None False 0 =
                Loop_done ?a3 (Some e3) False 4"
    unfolding range call_loop.simps step0 step1 step2 step3 step.case by simp
  have four: "str_int 4 = ''4''"
    by (simp add: str_int_def str_nat.simps)
  have raised: "exhausted_error tool_name (Some e3) 4 =
                  vice_error ViceMCPConnectionError
                    (''Failed to connect after 4 attempts: '' @ exc_str e3) (PInt 0) PNone"
    using classes(4) by (simp add: exhausted_error_def Let_def four)
  have run: "call_raw env tool_name arguments s =
               (Raised (vice_error ViceMCPConnectionError
                          (''Failed to connect after 4 attempts: '' @ exc_str e3) (PInt 0) PNone),
                record_in env ?a3 tool_name ?start False (Some (exc_str e3))
                  (getattr_code (Some e3)) 3 False)"
    by (simp add: call_raw_def Let_def loop raised)
  have grow: "?t * (3 / 2) ^ 0 < ?t * (3 / 2) ^ 1" "?t * (3 / 2) ^ 1 < ?t * (3 / 2) ^ 2"
    "?t * (3 / 2) ^ 2 < ?t * (3 / 2) ^ 3"
    using positive by (simp_all add: power2_eq_square power3_eq_cube)
  show ?thesis
    using grow by (simp add: run record_in_entries)
qed

theorem connection_errors_exhaust_retries_witness:
  "max_retries (cl (sample_state 3 [])) = 3 \<and>
   json_serialisable (PDict []) \<and>
   0 \<le> retry_delay (cl (sample_state 3 [])) \<and>
   0 < timeout (cl (sample_state 3 [])) \<and>
   http_post (scripted_env sample_bodies True) (base_url (cl (sample_state 3 [])))
     (mcp_payload ''vice.ping'' [] (id_counter (cl (sample_state 3 [])) + 1))
     (timeout (cl (sample_state 3 []))) (world (sample_state 3 []))
     = (Inl connection_refused, []) \<and>
   http_post (scripted_env sample_bodies True) (base_url (cl (sample_state 3 [])))
     (mcp_payload ''vice.ping'' [] (id_counter (cl (sample_state 3 [])) + 2))
     (timeout (cl (sample_state 3 [])) * (3 / 2))
     (sleep (scripted_env sample_bodies True) (retry_delay (cl (sample_state 3 []))) [])
     = (Inl connection_refused, []) \<and>
   http_post (scripted_env sample_bodies True) (base_url (cl (sample_state 3 [])))
     (mcp_payload ''vice.ping'' [] (id_counter (cl (sample_state 3 [])) + 3))
     (timeout (cl (sample_state 3 [])) * (3 / 2) ^ 2)
     (sleep (scripted_env sample_bodies True) (retry_delay (cl (sample_state 3 [])) * 2) [])
     = (Inl connection_refused, []) \<and>
   http_post (scripted_env sample_bodies True) (base_url (cl (sample_state 3 [])))
     (mcp_payload ''vice.ping'' [] (id_counter (cl (sample_state 3 [])) + 4))
     (timeout (cl (sample_state 3 [])) * (3 / 2) ^ 3)
     (sleep (scripted_env sample_bodies True) (retry_delay (cl (sample_state 3 [])) * 4) [])
     = (Inl connection_refused, []) \<and>
   exc_class connection_refused = OSError \<and>
   fst (call_raw (scripted_env sample_bodies True) ''vice.ping'' [] (sample_state 3 [])) =
     Raised (vice_error ViceMCPConnectionError
               ''Failed to connect after 4 attempts: [Errno 111] Connection refused''
               (PInt 0) PNone) \<and>
   trace (snd (call_raw (scripted_env sample_bodies True) ''vice.ping'' [] (sample_state 3 []))) =
     [Post ''http://127.0.0.1:6510/mcp'' (mcp_payload ''vice.ping'' [] 1) 10,
      Sleep (1 / 2),
      Post ''http://127.0.0.1:6510/mcp'' (mcp_payload ''vice.ping'' [] 2) 15,
      Sleep 1,
      Post ''http://127.0.0.1:6510/mcp'' (mcp_payload ''vice.ping'' [] 3) (45 / 2),
      Sleep 2,
      Post ''http://127.0.0.1:6510/mcp'' (mcp_payload ''vice.ping'' [] 4) (135 / 4)] \<and>
   (\<exists>e. entries (monitor (cl (snd (call_raw (scripted_env sample_bodies True) ''vice.ping'' []
                 (sample_state 3 []))))) = [e] \<and>
        success e = False \<and> retry_count e = 3 \<and>
        error e = Some ''[Errno 111] Connection refused'')"
proof -
  let ?s = "sample_state 3 []"
  let ?env = "scripted_env sample_bodies True"
  have h1: "max_retries (cl ?s) = 3" by simp
  have h2: "json_serialisable (PDict [])" by simp
  have h3: "0 \<le> retry_delay (cl ?s)" by simp
  have h4: "0 < timeout (cl ?s)" by simp
  have p0: "http_post ?env (base_url (cl ?s))
     (mcp_payload ''vice.ping'' [] (id_counter (cl ?s) + 1))
     (timeout (cl ?s)) (world ?s) = (Inl connection_refused, [])" by simp
  have p1: "http_post ?env (base_url (cl ?s))
     (mcp_payload ''vice.ping'' [] (id_counter (cl ?s) + 2))
     (timeout (cl ?s) * (3 / 2)) (sleep ?env (retry_delay (cl ?s)) [])
     = (Inl connection_refused, [])" by simp
  have p2: "http_post ?env (base_url (cl ?s))
     (mcp_payload ''vice.ping'' [] (id_counter (cl ?s) + 3))
     (timeout (cl ?s) * (3 / 2) ^ 2) (sleep ?env (retry_delay (cl ?s) * 2) [])
     = (Inl connection_refused, [])" by simp
  have p3: "http_post ?env (base_url (cl ?s))
     (mcp_payload ''vice.ping'' [] (id_counter (cl ?s) + 4))
     (timeout (cl ?s) * (3 / 2) ^ 3) (sleep ?env (retry_delay (cl ?s) * 4) [])
     = (Inl connection_refused, [])" by simp
  have c: "exc_class connection_refused = OSError" by (simp add: connection_refused_def)
  have m: "exc_str connection_refused = ''[Errno 111] Connection refused''"
    by (simp add: connection_refused_def)
  note t = connection_errors_exhaust_retries [OF h1 h2 h3 h4 p0 p1 p2 p3 c c c c]
  from t have r: "fst (call_raw ?env ''vice.ping'' [] ?s) =
     Raised (vice_error ViceMCPConnectionError
               ''Failed to connect after 4 attempts: [Errno 111] Connection refused''
               (PInt 0) PNone) \<and>
   trace (snd (call_raw ?env ''vice.ping'' [] ?s)) =
     [Post ''http://127.0.0.1:6510/mcp'' (mcp_payload ''vice.ping'' [] 1) 10,
      Sleep (1 / 2),
      Post ''http://127.0.0.1:6510/mcp'' (mcp_payload ''vice.ping'' [] 2) 15,
      Sleep 1,
      Post ''http://127.0.0.1:6510/mcp'' (mcp_payload ''vice.ping'' [] 3) (45 / 2),
      Sleep 2,
      Post ''http://127.0.0.1:6510/mcp'' (mcp_payload ''vice.ping'' [] 4) (135 / 4)] \<and>
   (\<exists>e. entries (monitor (cl (snd (call_raw ?env ''vice.ping'' [] ?s)))) = [e] \<and>
        success e = False \<and> retry_count e = 3 \<and>
        error e = Some ''[Errno 111] Connection refused'')"
    by (simp add: m power2_eq_square power3_eq_cube)
  from h1 h2 h3 h4 p0 p1 p2 p3 c r show ?thesis by blast
qed

subsection \<open>Exhaustion\<close>

text \<open>What an iteration that goes on, or breaks, leaves untouched.\<close>

lemma handle_exception_keeps:
  "case handle_exception env tool_name start attempt s last_error fallback exc of
     Step_continue s' last_error' fallback' \<Rightarrow> cl s' = cl s
   | Step_break s' last_error' fallback' \<Rightarrow> cl s' = cl s \<and> max_retries (cl s) \<le> attempt
   | _ \<Rightarrow> True"
  by (simp add: handle_exception_def back_off_def do_sleep_def Let_def)

lemma attempt_body_keeps:
  "case attempt_body env tool_name arguments start attempt s last_error fallback of
     Step_continue s' last_error' fallback' \<Rightarrow>
       monitor (cl s') = monitor (cl s) \<and> max_retries (cl s') = max_retries (cl s)
   | Step_break s' last_error' fallback' \<Rightarrow>
       monitor (cl s') = monitor (cl s) \<and> max_retries (cl s') = max_retries (cl s) \<and>
       max_retries (cl s) \<le> attempt
   | _ \<Rightarrow> True"
proof (cases "json_serialisable (PDict arguments)")
  case False
  then show ?thesis
    by (simp add: attempt_body_def build_mcp_payload_def build_direct_payload_def
          next_id_def Let_def)
next
  case True
  show ?thesis
  proof (cases fallback)
    case fb: True
    obtain response w where post: "http_post env (base_url (cl s))
           (direct_payload tool_name arguments (id_counter (cl s) + 1))
           (timeout (cl s) * (3 / 2) ^ nat attempt) (world s) = (response, w)"
      by (cases "http_post env (base_url (cl s))
           (direct_payload tool_name arguments (id_counter (cl s) + 1))
           (timeout (cl s) * (3 / 2) ^ nat attempt) (world s)")
    let ?s1 = "sent s (direct_payload tool_name arguments (id_counter (cl s) + 1))
                 (timeout (cl s) * (3 / 2) ^ nat attempt) w"
    have eq: "fallback = True" using fb by simp
    show ?thesis
    proof (cases "receive env response")
      case (Inr result)
      then show ?thesis unfolding eq attempt_body_direct [OF True post] by simp
    next
      case (Inl exc)
      with handle_exception_keeps [where env = env and tool_name = tool_name and start = start
          and attempt = attempt and s = ?s1 and last_error = last_error and fallback = True
          and exc = exc]
      show ?thesis unfolding eq attempt_body_direct [OF True post]
        by (simp split: step.splits)
    qed
  next
    case fb: False
    obtain response w where post: "http_post env (base_url (cl s))
           (mcp_payload tool_name arguments (id_counter (cl s) + 1))
           (timeout (cl s) * (3 / 2) ^ nat attempt) (world s) = (response, w)"
      by (cases "http_post env (base_url (cl s))
           (mcp_payload tool_name arguments (id_counter (cl s) + 1))
           (timeout (cl s) * (3 / 2) ^ nat attempt) (world s)")
    let ?s1 = "sent s (mcp_payload tool_name arguments (id_counter (cl s) + 1))
                 (timeout (cl s) * (3 / 2) ^ nat attempt) w"
    have eq: "fallback = False" using fb by simp
    show ?thesis
    proof (cases "receive env response")
      case (Inr result)
      then show ?thesis unfolding eq attempt_body_wrapped [OF True post] by simp
    next
      case (Inl exc)
      with handle_exception_keeps [where env = env and tool_name = tool_name and start = start
          and attempt = attempt and s = ?s1 and last_error = last_error and fallback = False
          and exc = exc]
      show ?thesis unfolding eq attempt_body_wrapped [OF True post]
        by (simp split: step.splits)
    qed
  qed
qed

text \<open>A loop that falls through has recorded nothing and has used up the whole range.\<close>

lemma call_loop_done:
  assumes "call_loop env tool_name arguments start attempts_left s last_error fallback attempts
             = Loop_done s' last_error' fallback' attempts'"
    and "sorted_wrt (<) attempts_left"
    and "\<forall>a \<in> set attempts_left. a \<le> max_retries (cl s)"
  shows "monitor (cl s') = monitor (cl s) \<and> max_retries (cl s') = max_retries (cl s) \<and>
         attempts' = (if attempts_left = [] then attempts else last attempts_left + 1)"
  using assms
proof (induction attempts_left arbitrary: s last_error fallback attempts)
  case Nil
  then show ?case by simp
next
  case (Cons attempt rest)
  note keeps = attempt_body_keeps [where env = env and tool_name = tool_name
      and arguments = arguments and start = start and attempt = attempt and s = s
      and last_error = last_error and fallback = fallback]
  show ?case
  proof (cases "attempt_body env tool_name arguments start attempt s last_error fallback")
    case (Step_return result s1)
    with Cons.prems(1) show ?thesis by simp
  next
    case (Step_raise exc s1)
    with Cons.prems(1) show ?thesis by simp
  next
    case (Step_continue s1 last_error1 fallback1)
    with keeps have same: "monitor (cl s1) = monitor (cl s)"
      "max_retries (cl s1) = max_retries (cl s)" by simp_all
    have loop: "call_loop env tool_name arguments start rest s1 last_error1 fallback1
                  (attempt + 1) = Loop_done s' last_error' fallback' attempts'"
      using Cons.prems(1) Step_continue by simp
    have sorted: "sorted_wrt (<) rest" using Cons.prems(2) by simp
    have bound: "\<forall>a \<in> set rest. a \<le> max_retries (cl s1)"
      using Cons.prems(3) same(2) by simp
    from Cons.IH [OF loop sorted bound] same show ?thesis by simp
  next
    case (Step_break s1 last_error1 fallback1)
    with keeps have same: "monitor (cl s1) = monitor (cl s)"
      "max_retries (cl s1) = max_retries (cl s)" "max_retries (cl s) \<le> attempt" by simp_all
    have "rest = []"
    proof (rule ccontr)
      assume "rest \<noteq> []"
      then obtain a where a: "a \<in> set rest" by (cases rest) auto
      with Cons.prems(2) have "attempt < a" by simp
      moreover from a Cons.prems(3) have "a \<le> max_retries (cl s)" by simp
      ultimately show False using same(3) by simp
    qed
    with Cons.prems(1) Step_break same show ?thesis by simp
  qed
qed

text \<open>
  Claim C5 says that a call which exhausts its attempts raises a connection-class error
  when the last failure came from the transport and a generic exhaustion error
  otherwise. With \<open>max_retries = 1\<close> and two responses in the protocol band, the call
  raises the second \<open>ViceMCPProtocolError\<close> itself, with the server's message and code.
\<close>

theorem exhausted_protocol_error_counterexample:
  "fst (call_raw (scripted_env sample_bodies True) ''vice.ping'' []
          (sample_state 1 [Inr (200, ''not-found''), Inr (200, ''not-found'')])) =
     Raised (vice_error ViceMCPProtocolError ''Method not found'' (PInt (- 32601)) PNone) \<and>
   exc_class (vice_error ViceMCPProtocolError ''Method not found'' (PInt (- 32601)) PNone)
     \<noteq> ViceMCPConnectionError \<and>
   exc_class (vice_error ViceMCPProtocolError ''Method not found'' (PInt (- 32601)) PNone)
     \<noteq> ViceMCPError"
  by (simp add: run_defs sample_defs Let_def range_0_1)

text \<open>Attempts below \<open>max_retries\<close> never break, so the loop over a range splits.\<close>

lemma call_loop_append:
  assumes "\<forall>a \<in> set attempts_left. a < max_retries (cl s)"
  shows "call_loop env tool_name arguments start (attempts_left @ rest) s last_error fallback
           attempts =
         (case call_loop env tool_name arguments start attempts_left s last_error fallback
                 attempts of
            Loop_done s1 last_error1 fallback1 attempts1 \<Rightarrow>
              call_loop env tool_name arguments start rest s1 last_error1 fallback1 attempts1
          | r \<Rightarrow> r)"
  using assms
proof (induction attempts_left arbitrary: s last_error fallback attempts)
  case Nil
  show ?case by simp
next
  case (Cons attempt more)
  note keeps = attempt_body_keeps [where env = env and tool_name = tool_name
      and arguments = arguments and start = start and attempt = attempt and s = s
      and last_error = last_error and fallback = fallback]
  show ?case
  proof (cases "attempt_body env tool_name arguments start attempt s last_error fallback")
    case (Step_return result s')
    then show ?thesis by simp
  next
    case (Step_raise exc s')
    then show ?thesis by simp
  next
    case (Step_continue s' last_error' fallback')
    with keeps have "max_retries (cl s') = max_retries (cl s)" by simp
    with Cons.prems have "\<forall>a \<in> set more. a < max_retries (cl s')" by simp
    from Cons.IH [OF this] show ?thesis by (simp add: Step_continue)
  next
    case (Step_break s' last_error' fallback')
    with keeps have "max_retries (cl s) \<le> attempt" by simp
    with Cons.prems show ?thesis by simp
  qed
qed

text \<open>The handlers on the last attempt: no sleep, and \<open>last_error\<close> is the exception just
  caught.\<close>

lemma handle_exception_last:
  assumes "\<not> attempt < max_retries (cl s)"
    and "exc_class exc \<noteq> ViceMCPToolError"
    and "is_exception (exc_class exc)"
  shows "handle_exception env tool_name start attempt s last_error fallback exc =
           (if exc_class exc = ViceMCPProtocolError \<or> exc_class exc = OSError
            then Step_continue s (Some exc) (fallback \<or> exc_class exc = ViceMCPProtocolError)
            else Step_break s (Some exc) fallback)"
  using assms by (auto simp add: handle_exception_def Let_def)

lemma call_loop_last:
  assumes ser: "json_serialisable (PDict arguments)"
    and last: "attempt = max_retries (cl s)"
    and post: "http_post env (base_url (cl s))
                 ((if fallback then direct_payload else mcp_payload) tool_name arguments
                    (id_counter (cl s) + 1))
                 (timeout (cl s) * (3 / 2) ^ nat attempt) (world s) = (response, w)"
    and raised: "receive env response = Inl exc"
    and cls: "exc_class exc \<noteq> ViceMCPToolError" "is_exception (exc_class exc)"
  shows "call_loop env tool_name arguments start [attempt] s last_error fallback attempts =
           Loop_done
             (sent s ((if fallback then direct_payload else mcp_payload) tool_name arguments
                        (id_counter (cl s) + 1))
                (timeout (cl s) * (3 / 2) ^ nat attempt) w)
             (Some exc) (fallback \<or> exc_class exc = ViceMCPProtocolError) (attempt + 1)"
proof -
  let ?payload = "(if fallback then direct_payload else mcp_payload) tool_name arguments
                    (id_counter (cl s) + 1)"
  let ?sent = "sent s ?payload (timeout (cl s) * (3 / 2) ^ nat attempt) w"
  have no_more: "\<not> attempt < max_retries (cl ?sent)" using last by simp
  have body: "attempt_body env tool_name arguments start attempt s last_error fallback =
                handle_exception env tool_name start attempt ?sent last_error fallback exc"
  proof (cases fallback)
    case True
    then have eq: "fallback = True" by simp
    from post have "http_post env (base_url (cl s))
                 (direct_payload tool_name arguments (id_counter (cl s) + 1))
                 (timeout (cl s) * (3 / 2) ^ nat attempt) (world s) = (response, w)"
      by (simp add: eq)
    from attempt_body_direct [OF ser this] raised show ?thesis by (simp add: eq)
  next
    case False
    then have eq: "fallback = False" by simp
    from post have "http_post env (base_url (cl s))
                 (mcp_payload tool_name arguments (id_counter (cl s) + 1))
                 (timeout (cl s) * (3 / 2) ^ nat attempt) (world s) = (response, w)"
      by (simp add: eq)
    from attempt_body_wrapped [OF ser this] raised show ?thesis by (simp add: eq)
  qed
  show ?thesis
    unfolding call_loop.simps body handle_exception_last [OF no_more cls]
    by simp
qed

text \<open>
  Claim C5, as the code has it. A call exhausts its attempts when every attempt before
  the last went on to the next one (the loop over \<open>0 .. max_retries - 1\<close> falls through,
  leaving the state \<open>s1\<close> and the flag \<open>fallback1\<close>) and the last attempt, the one
  numbered \<open>max_retries\<close>, raised an exception \<open>exc\<close> that is an \<open>Exception\<close> and not a
  \<open>ViceMCPToolError\<close>. Then \<open>_call_raw\<close> raises an error chosen by \<open>exc\<close>, the failure
  of that last attempt: \<open>exc\<close> itself when it is a \<open>ViceMCPError\<close> (so a protocol error is
  raised again as it is), a \<open>ViceMCPConnectionError\<close> wrapping its message when it is an
  \<open>OSError\<close>, and a plain \<open>ViceMCPError\<close> wrapping its message otherwise. Before raising,
  exactly one entry is recorded, with \<open>success = False\<close>, the message and code of \<open>exc\<close>,
  \<open>retry_count = max_retries\<close> (the attempts made, less one) and the fallback flag. With a
  negative \<open>max_retries\<close> no attempt is made: the call raises a plain \<open>ViceMCPError\<close> for
  \<open>"Unknown error"\<close>, after recording one failed entry with \<open>retry_count = -1\<close>.
\<close>

theorem exhausted_call_raises:
  "(max_retries (cl s) < 0 \<longrightarrow>
      fst (call_raw env tool_name arguments s) =
        Raised (vice_error ViceMCPError
                  (''Call to '' @ tool_name @ '' failed after 0 attempts: Unknown error'')
                  (PInt 0) PNone) \<and>
      trace (snd (call_raw env tool_name arguments s)) = trace s \<and>
      (\<exists>e. entries (monitor (cl (snd (call_raw env tool_name arguments s)))) =
              entries (monitor (cl s)) @ [e] \<and>
            success e = False \<and> error e = Some ''Unknown error'' \<and> error_code e = PNone \<and>
            retry_count e = - 1 \<and> fallback_used e = False)) \<and>
   (0 \<le> max_retries (cl s) \<longrightarrow>
    call_loop env tool_name arguments (monotonic env (world s))
      [0 .. max_retries (cl s) - 1] s None False 0
      = Loop_done s1 last_error1 fallback1 attempts1 \<longrightarrow>
    json_serialisable (PDict arguments) \<longrightarrow>
    http_post env (base_url (cl s1))
      ((if fallback1 then direct_payload else mcp_payload) tool_name arguments
         (id_counter (cl s1) + 1))
      (timeout (cl s1) * (3 / 2) ^ nat (max_retries (cl s))) (world s1) = (response, w) \<longrightarrow>
    receive env response = Inl exc \<longrightarrow>
    exc_class exc \<noteq> ViceMCPToolError \<longrightarrow>
    is_exception (exc_class exc) \<longrightarrow>
      fst (call_raw env tool_name arguments s) =
        Raised (if is_vice_error (exc_class exc) then exc
                else if exc_class exc = OSError then
                  vice_error ViceMCPConnectionError
                    (''Failed to connect after '' @ str_int (max_retries (cl s) + 1)
                       @ '' attempts: '' @ exc_str exc) (PInt 0) PNone
                else
                  vice_error ViceMCPError
                    (''Call to '' @ tool_name @ '' failed after ''
                       @ str_int (max_retries (cl s) + 1) @ '' attempts: '' @ exc_str exc)
                    (PInt 0) PNone) \<and>
      (\<exists>e. entries (monitor (cl (snd (call_raw env tool_name arguments s)))) =
              entries (monitor (cl s)) @ [e] \<and>
            success e = False \<and> error e = Some (exc_str exc) \<and>
            error_code e = getattr_code (Some exc) \<and>
            retry_count e = max_retries (cl s) \<and>
            fallback_used e = (fallback1 \<or> exc_class exc = ViceMCPProtocolError)))"
proof (intro conjI impI)
  assume neg: "max_retries (cl s) < 0"
  have zero: "str_int 0 = ''0''" by (simp add: str_int_def str_nat.simps)
  have run: "call_raw env tool_name arguments s =
               (Raised (vice_error ViceMCPError
                  (''Call to '' @ tool_name @ '' failed after 0 attempts: Unknown error'')
                  (PInt 0) PNone),
                record_in env s tool_name (monotonic env (world s)) False
                  (Some ''Unknown error'') PNone (- 1) False)"
    using neg by (simp add: call_raw_def Let_def exhausted_error_def getattr_code_def zero)
  show "fst (call_raw env tool_name arguments s) =
        Raised (vice_error ViceMCPError
                  (''Call to '' @ tool_name @ '' failed after 0 attempts: Unknown error'')
                  (PInt 0) PNone)"
    by (simp add: run)
  show "trace (snd (call_raw env tool_name arguments s)) = trace s"
    by (simp add: run)
  show "\<exists>e. entries (monitor (cl (snd (call_raw env tool_name arguments s)))) =
              entries (monitor (cl s)) @ [e] \<and>
            success e = False \<and> error e = Some ''Unknown error'' \<and> error_code e = PNone \<and>
            retry_count e = - 1 \<and> fallback_used e = False"
    by (simp add: run record_in_entries)
next
  assume pos: "0 \<le> max_retries (cl s)"
    and before: "call_loop env tool_name arguments (monotonic env (world s))
                   [0 .. max_retries (cl s) - 1] s None False 0
                   = Loop_done s1 last_error1 fallback1 attempts1"
    and ser: "json_serialisable (PDict arguments)"
    and post: "http_post env (base_url (cl s1))
                 ((if fallback1 then direct_payload else mcp_payload) tool_name arguments
                    (id_counter (cl s1) + 1))
                 (timeout (cl s1) * (3 / 2) ^ nat (max_retries (cl s))) (world s1)
                 = (response, w)"
    and raised: "receive env response = Inl exc"
    and not_tool: "exc_class exc \<noteq> ViceMCPToolError"
    and is_exc: "is_exception (exc_class exc)"
  let ?start = "monotonic env (world s)"
  let ?m = "max_retries (cl s)"
  let ?fallback = "fallback1 \<or> exc_class exc = ViceMCPProtocolError"
  let ?sent = "sent s1 ((if fallback1 then direct_payload else mcp_payload) tool_name arguments
                          (id_counter (cl s1) + 1))
                 (timeout (cl s1) * (3 / 2) ^ nat ?m) w"
  have split: "[0 .. ?m] = [0 .. ?m - 1] @ [?m]"
    using pos by (simp add: upto_rec2)
  have below: "\<forall>a \<in> set [0 .. ?m - 1]. a < max_retries (cl s)" by simp
  have bound: "\<forall>a \<in> set [0 .. ?m - 1]. a \<le> max_retries (cl s)" by simp
  from call_loop_done [OF before sorted_wrt_upto bound]
  have same: "monitor (cl s1) = monitor (cl s)" "max_retries (cl s1) = ?m"
    by simp_all
  have final: "call_loop env tool_name arguments ?start [?m] s1 last_error1 fallback1 attempts1
                 = Loop_done ?sent (Some exc) ?fallback (?m + 1)"
    using same(2) by (intro call_loop_last [OF ser _ post raised not_tool is_exc]) simp
  have "call_loop env tool_name arguments ?start [0 .. ?m] s None False 0
          = call_loop env tool_name arguments ?start [?m] s1 last_error1 fallback1 attempts1"
    unfolding split call_loop_append [OF below] before by (simp only: loop_result.case)
  then have loop: "call_loop env tool_name arguments ?start [0 .. ?m] s None False 0
                = Loop_done ?sent (Some exc) ?fallback (?m + 1)"
    by (simp only: final)
  have run: "call_raw env tool_name arguments s =
               (Raised (exhausted_error tool_name (Some exc) (?m + 1)),
                record_in env ?sent tool_name ?start False (Some (exc_str exc))
                  (getattr_code (Some exc)) ?m ?fallback)"
    by (simp add: call_raw_def Let_def loop)
  show "fst (call_raw env tool_name arguments s) =
        Raised (if is_vice_error (exc_class exc) then exc
                else if exc_class exc = OSError then
                  vice_error ViceMCPConnectionError
                    (''Failed to connect after '' @ str_int (max_retries (cl s) + 1)
                       @ '' attempts: '' @ exc_str exc) (PInt 0) PNone
                else
                  vice_error ViceMCPError
                    (''Call to '' @ tool_name @ '' failed after ''
                       @ str_int (max_retries (cl s) + 1) @ '' attempts: '' @ exc_str exc)
                    (PInt 0) PNone)"
    by (simp add: run exhausted_error_def Let_def)
  show "\<exists>e. entries (monitor (cl (snd (call_raw env tool_name arguments s)))) =
              entries (monitor (cl s)) @ [e] \<and>
            success e = False \<and> error e = Some (exc_str exc) \<and>
            error_code e = getattr_code (Some exc) \<and>
            retry_count e = max_retries (cl s) \<and>
            fallback_used e = (fallback1 \<or> exc_class exc = ViceMCPProtocolError)"
    by (simp add: run record_in_entries same(1))
qed

lemma two_protocol_errors_before:
  "call_loop (scripted_env sample_bodies True) ''vice.ping'' []
     (monotonic (scripted_env sample_bodies True)
        (world (sample_state 1 [Inr (200, ''not-found''), Inr (200, ''invalid-request'')])))
     [0 .. max_retries (cl (sample_state 1 [Inr (200, ''not-found''),
                                            Inr (200, ''invalid-request'')])) - 1]
     (sample_state 1 [Inr (200, ''not-found''), Inr (200, ''invalid-request'')]) None False 0 =
   Loop_done
     (sent (sample_state 1 [Inr (200, ''not-found''), Inr (200, ''invalid-request'')])
        (mcp_payload ''vice.ping'' [] 1) 10 [Inr (200, ''invalid-request'')])
     (Some (vice_error ViceMCPProtocolError ''Method not found'' (PInt (- 32601)) PNone))
     True 1"
  by (simp add: run_defs sample_defs Let_def sent_def)

theorem exhausted_call_raises_witness:
  "max_retries (cl (sample_state (- 1) [])) < 0 \<and>
   fst (call_raw (scripted_env sample_bodies True) ''vice.ping'' [] (sample_state (- 1) [])) =
     Raised (vice_error ViceMCPError
               ''Call to vice.ping failed after 0 attempts: Unknown error'' (PInt 0) PNone) \<and>
   (\<exists>e. entries (monitor (cl (snd (call_raw (scripted_env sample_bodies True) ''vice.ping'' []
                 (sample_state (- 1) []))))) = [e] \<and>
        success e = False \<and> error e = Some ''Unknown error'' \<and> error_code e = PNone \<and>
        retry_count e = - 1 \<and> fallback_used e = False) \<and>
   0 \<le> max_retries (cl (sample_state 1 [Inr (200, ''not-found''),
                                         Inr (200, ''invalid-request'')])) \<and>
   call_loop (scripted_env sample_bodies True) ''vice.ping'' []
     (monotonic (scripted_env sample_bodies True)
        (world (sample_state 1 [Inr (200, ''not-found''), Inr (200, ''invalid-request'')])))
     [0 .. max_retries (cl (sample_state 1 [Inr (200, ''not-found''),
                                            Inr (200, ''invalid-request'')])) - 1]
     (sample_state 1 [Inr (200, ''not-found''), Inr (200, ''invalid-request'')]) None False 0 =
   Loop_done
     (sent (sample_state 1 [Inr (200, ''not-found''), Inr (200, ''invalid-request'')])
        (mcp_payload ''vice.ping'' [] 1) 10 [Inr (200, ''invalid-request'')])
     (Some (vice_error ViceMCPProtocolError ''Method not found'' (PInt (- 32601)) PNone))
     True 1 \<and>
   json_serialisable (PDict []) \<and>
   http_post (scripted_env sample_bodies True) ''http://127.0.0.1:6510/mcp''
     (direct_payload ''vice.ping'' [] 2) 15 [Inr (200, ''invalid-request'')]
     = (Inr (200, ''invalid-request''), []) \<and>
   receive (scripted_env sample_bodies True) (Inr (200, ''invalid-request'')) =
     Inl (vice_error ViceMCPProtocolError ''Invalid Request'' (PInt (- 32600)) PNone) \<and>
   exc_class (vice_error ViceMCPProtocolError ''Invalid Request'' (PInt (- 32600)) PNone)
     \<noteq> ViceMCPToolError \<and>
   is_exception
     (exc_class (vice_error ViceMCPProtocolError ''Invalid Request'' (PInt (- 32600)) PNone)) \<and>
   fst (call_raw (scripted_env sample_bodies True) ''vice.ping'' []
          (sample_state 1 [Inr (200, ''not-found''), Inr (200, ''invalid-request'')])) =
     Raised (vice_error ViceMCPProtocolError ''Invalid Request'' (PInt (- 32600)) PNone) \<and>
   (\<exists>e. entries (monitor (cl (snd (call_raw (scripted_env sample_bodies True) ''vice.ping'' []
          (sample_state 1 [Inr (200, ''not-found''), Inr (200, ''invalid-request'')]))))) = [e] \<and>
        success e = False \<and> error e = Some ''Invalid Request'' \<and>
        error_code e = PInt (- 32600) \<and> retry_count e = 1 \<and> fallback_used e = True)"
proof -
  let ?env = "scripted_env sample_bodies True"
  let ?empty = "sample_state (- 1) []"
  let ?s = "sample_state 1 [Inr (200, ''not-found''), Inr (200, ''invalid-request'')]"
  let ?s1 = "sent ?s (mcp_payload ''vice.ping'' [] 1) 10 [Inr (200, ''invalid-request'')]"
  let ?first = "vice_error ViceMCPProtocolError ''Method not found'' (PInt (- 32601)) PNone"
  let ?last = "vice_error ViceMCPProtocolError ''Invalid Request'' (PInt (- 32600)) PNone"
  have n: "max_retries (cl ?empty) < 0" by simp
  note none = exhausted_call_raises [where s = ?empty and env = ?env and tool_name = "''vice.ping''"
      and arguments = "[]", THEN conjunct1, rule_format, OF n]
  from none have a: "fst (call_raw ?env ''vice.ping'' [] ?empty) =
     Raised (vice_error ViceMCPError
               ''Call to vice.ping failed after 0 attempts: Unknown error'' (PInt 0) PNone) \<and>
   (\<exists>e. entries (monitor (cl (snd (call_raw ?env ''vice.ping'' [] ?empty)))) = [e] \<and>
        success e = False \<and> error e = Some ''Unknown error'' \<and> error_code e = PNone \<and>
        retry_count e = - 1 \<and> fallback_used e = False)"
    by simp
  have h1: "0 \<le> max_retries (cl ?s)" by simp
  note h2 = two_protocol_errors_before
  have h3: "json_serialisable (PDict [])" by simp
  have post: "http_post ?env ''http://127.0.0.1:6510/mcp''
     (direct_payload ''vice.ping'' [] 2) 15 [Inr (200, ''invalid-request'')]
     = (Inr (200, ''invalid-request''), [])" by simp
  have h4: "http_post ?env (base_url (cl ?s1))
      ((if True then direct_payload else mcp_payload) ''vice.ping'' [] (id_counter (cl ?s1) + 1))
      (timeout (cl ?s1) * (3 / 2) ^ nat (max_retries (cl ?s))) (world ?s1)
      = (Inr (200, ''invalid-request''), [])"
    by simp
  have h5: "receive ?env (Inr (200, ''invalid-request'')) = Inl ?last"
    using decode_protocol_band [of ?env "''invalid-request''"
        "error_response invalid_request_error" invalid_request_error]
    by (simp add: receive_def PROTOCOL_ERROR_CODES_def)
  have h6: "exc_class ?last \<noteq> ViceMCPToolError" by (simp add: vice_error_def)
  have h7: "is_exception (exc_class ?last)" by (simp add: vice_error_def)
  note some = exhausted_call_raises [THEN conjunct2, rule_format, OF h1 h2 h3 h4 h5 h6 h7]
  from some have b: "fst (call_raw ?env ''vice.ping'' [] ?s) = Raised ?last \<and>
   (\<exists>e. entries (monitor (cl (snd (call_raw ?env ''vice.ping'' [] ?s)))) = [e] \<and>
        success e = False \<and> error e = Some ''Invalid Request'' \<and>
        error_code e = PInt (- 32600) \<and> retry_count e = 1 \<and> fallback_used e = True)"
    by (simp add: vice_error_def getattr_code_def)
  from n a h1 h2 h3 post h5 h6 h7 b show ?thesis by blast
qed

subsection \<open>Request ids\<close>

lemma post_ids_append [simp]: "post_ids (xs @ ys) = post_ids xs @ post_ids ys"
  by (induction xs rule: post_ids.induct) simp_all

lemma request_id_payloads [simp]:
  "request_id (mcp_payload tool_name arguments i) = Some i"
  "request_id (direct_payload tool_name arguments i) = Some i"
  by (simp_all add: request_id_def mcp_payload_def direct_payload_def)

lemma advances_refl: "advances s s"
  by (simp add: advances_def)

lemma advances_trans:
  assumes "advances s s'" and "advances s' s''"
  shows "advances s s''"
proof -
  from assms(1) obtain xs where xs: "post_ids (trace s') = post_ids (trace s) @ map Some xs"
    "sorted_wrt (<) xs"
    "list_all (\<lambda>i. id_counter (cl s) < i \<and> i \<le> id_counter (cl s')) xs"
    "id_counter (cl s) \<le> id_counter (cl s')"
    unfolding advances_def by blast
  from assms(2) obtain ys where ys: "post_ids (trace s'') = post_ids (trace s') @ map Some ys"
    "sorted_wrt (<) ys"
    "list_all (\<lambda>i. id_counter (cl s') < i \<and> i \<le> id_counter (cl s'')) ys"
    "id_counter (cl s') \<le> id_counter (cl s'')"
    unfolding advances_def by blast
  have "post_ids (trace s'') = post_ids (trace s) @ map Some (xs @ ys)"
    using xs(1) ys(1) by simp
  moreover have "sorted_wrt (<) (xs @ ys)"
    using xs(2,3) ys(2,3) by (fastforce simp add: sorted_wrt_append list_all_iff)
  moreover have "list_all (\<lambda>i. id_counter (cl s) < i \<and> i \<le> id_counter (cl s'')) (xs @ ys)"
    using xs(3,4) ys(3,4) by (fastforce simp add: list_all_iff)
  moreover have "id_counter (cl s) \<le> id_counter (cl s'')"
    using xs(4) ys(4) by simp
  ultimately show ?thesis unfolding advances_def by blast
qed

lemma advances_same:
  assumes "post_ids (trace s') = post_ids (trace s)" and "id_counter (cl s) \<le> id_counter (cl s')"
  shows "advances s s'"
  unfolding advances_def using assms by (intro exI [of _ "[]"]) simp

lemma advances_sent:
  assumes "request_id payload = Some (id_counter (cl s) + 1)"
  shows "advances s (sent s payload t w)"
  unfolding advances_def using assms
  by (intro exI [of _ "[id_counter (cl s) + 1]"]) simp

lemma advances_slept: "advances s (slept env d s)"
  by (rule advances_same) simp_all

lemma advances_record_in:
  "advances s (record_in env s tool_name start succ err code retries fallback)"
  by (rule advances_same) simp_all

lemma advances_back_off:
  "advances s (step_state (back_off env attempt s last_error fallback))"
  by (simp add: back_off_def do_sleep_def advances_refl advances_slept [unfolded slept_def])

lemma advances_handle_exception:
  "advances s (step_state (handle_exception env tool_name start attempt s last_error fallback exc))"
  by (simp add: handle_exception_def Let_def advances_refl advances_back_off advances_record_in)

lemma advances_attempt_body:
  "advances s (step_state (attempt_body env tool_name arguments start attempt s last_error fallback))"
proof (cases "json_serialisable (PDict arguments)")
  case False
  then have "step_state (attempt_body env tool_name arguments start attempt s last_error fallback)
               = s\<lparr>cl := (cl s)\<lparr>id_counter := id_counter (cl s) + 1\<rparr>\<rparr>"
    by (simp add: attempt_body_def build_mcp_payload_def build_direct_payload_def
          next_id_def Let_def)
  then show ?thesis by (simp add: advances_same)
next
  case True
  show ?thesis
  proof (cases fallback)
    case fb: True
    obtain response w where post: "http_post env (base_url (cl s))
           (direct_payload tool_name arguments (id_counter (cl s) + 1))
           (timeout (cl s) * (3 / 2) ^ nat attempt) (world s) = (response, w)"
      by (cases "http_post env (base_url (cl s))
           (direct_payload tool_name arguments (id_counter (cl s) + 1))
           (timeout (cl s) * (3 / 2) ^ nat attempt) (world s)")
    let ?s1 = "sent s (direct_payload tool_name arguments (id_counter (cl s) + 1))
                 (timeout (cl s) * (3 / 2) ^ nat attempt) w"
    have a1: "advances s ?s1" by (rule advances_sent) simp
    have eq: "fallback = True" using fb by simp
    show ?thesis
      unfolding eq attempt_body_direct [OF True post]
      by (auto split: sum.split
          intro: advances_trans [OF a1 advances_record_in]
                 advances_trans [OF a1 advances_handle_exception])
  next
    case fb: False
    obtain response w where post: "http_post env (base_url (cl s))
           (mcp_payload tool_name arguments (id_counter (cl s) + 1))
           (timeout (cl s) * (3 / 2) ^ nat attempt) (world s) = (response, w)"
      by (cases "http_post env (base_url (cl s))
           (mcp_payload tool_name arguments (id_counter (cl s) + 1))
           (timeout (cl s) * (3 / 2) ^ nat attempt) (world s)")
    let ?s1 = "sent s (mcp_payload tool_name arguments (id_counter (cl s) + 1))
                 (timeout (cl s) * (3 / 2) ^ nat attempt) w"
    have a1: "advances s ?s1" by (rule advances_sent) simp
    have eq: "fallback = False" using fb by simp
    show ?thesis
      unfolding eq attempt_body_wrapped [OF True post]
      by (auto split: sum.split
          intro: advances_trans [OF a1 advances_record_in]
                 advances_trans [OF a1 advances_handle_exception])
  qed
qed

lemma advances_call_loop:
  "advances s (loop_state (call_loop env tool_name arguments start attempts_left s last_error
                              fallback attempts))"
proof (induction attempts_left arbitrary: s last_error fallback attempts)
  case Nil
  show ?case by (simp add: advances_refl)
next
  case (Cons attempt rest)
  have step: "advances s (step_state (attempt_body env tool_name arguments start attempt s
                                          last_error fallback))"
    by (rule advances_attempt_body)
  show ?case
  proof (cases "attempt_body env tool_name arguments start attempt s last_error fallback")
    case (Step_return result s')
    with step show ?thesis by simp
  next
    case (Step_raise exc s')
    with step show ?thesis by simp
  next
    case (Step_continue s' last_error' fallback')
    with step have "advances s s'" by simp
    from advances_trans [OF this Cons.IH] show ?thesis
      by (simp add: Step_continue)
  next
    case (Step_break s' last_error' fallback')
    with step show ?thesis by simp
  qed
qed

lemma advances_call_raw: "advances s (snd (call_raw env tool_name arguments s))"
proof -
  let ?loop = "call_loop env tool_name arguments (monotonic env (world s))
                 [0 .. max_retries (cl s)] s None False 0"
  have loop: "advances s (loop_state ?loop)" by (rule advances_call_loop)
  show ?thesis
  proof (cases ?loop)
    case (Loop_return result s')
    with loop show ?thesis by (simp add: call_raw_def Let_def)
  next
    case (Loop_raise exc s')
    with loop show ?thesis by (simp add: call_raw_def Let_def)
  next
    case (Loop_done s' last_error fallback attempts)
    with loop have "advances s s'" by simp
    from advances_trans [OF this advances_record_in] show ?thesis
      by (simp add: call_raw_def Let_def Loop_done)
  qed
qed

lemma advances_call: "advances s (snd (call env tool_name kwargs s))"
  by (simp add: call_def Let_def advances_call_raw advances_refl)

lemma advances_call_seq: "advances s (call_seq env calls s)"
proof (induction calls arbitrary: s)
  case Nil
  show ?case by (simp add: advances_refl)
next
  case (Cons c calls)
  obtain tool_name kwargs where c: "c = (tool_name, kwargs)" by (cases c)
  from advances_trans [OF advances_call Cons.IH] show ?case
    by (simp add: c)
qed

lemma strictly_sorted_distinct: "sorted_wrt (<) (xs :: int list) \<Longrightarrow> distinct xs"
  by (induction xs) auto

text \<open>
  Claim C8, as the code has it. The counter belongs to the client. Over any sequence of
  calls made on one client, one after the other, every send carries a request id, and
  the ids sent increase strictly: they are pairwise distinct, all above the counter the
  client started with, and none is used twice, within a call or across calls.
\<close>

theorem request_ids_increase:
  "\<exists>ids. post_ids (trace (call_seq env calls s)) = post_ids (trace s) @ map Some ids \<and>
         sorted_wrt (<) ids \<and> distinct ids \<and>
         (\<forall>i \<in> set ids. id_counter (cl s) < i \<and> i \<le> id_counter (cl (call_seq env calls s)))"
proof -
  from advances_call_seq [of s env calls] obtain ids where
    "post_ids (trace (call_seq env calls s)) = post_ids (trace s) @ map Some ids"
    "sorted_wrt (<) ids"
    "list_all (\<lambda>i. id_counter (cl s) < i \<and> i \<le> id_counter (cl (call_seq env calls s))) ids"
    unfolding advances_def by blast
  then show ?thesis
    by (intro exI [of _ ids]) (simp add: strictly_sorted_distinct list_all_iff)
qed

theorem request_ids_increase_witness:
  "(\<exists>ids. post_ids (trace (call_seq (scripted_env sample_bodies True)
                   [(''vice.ping'', []), (''vice.ping'', [])]
                   (sample_state 3 [Inr (200, ''not-found''), Inr (200, ''pong''),
                                    Inr (200, ''pong'')]))) =
            post_ids (trace (sample_state 3 [Inr (200, ''not-found''), Inr (200, ''pong''),
                                    Inr (200, ''pong'')])) @ map Some ids \<and>
          sorted_wrt (<) ids \<and> distinct ids \<and>
          (\<forall>i \<in> set ids.
             id_counter (cl (sample_state 3 [Inr (200, ''not-found''), Inr (200, ''pong''),
                                    Inr (200, ''pong'')])) < i \<and>
             i \<le> id_counter (cl (call_seq (scripted_env sample_bodies True)
                   [(''vice.ping'', []), (''vice.ping'', [])]
                   (sample_state 3 [Inr (200, ''not-found''), Inr (200, ''pong''),
                                    Inr (200, ''pong'')]))))) \<and>
   post_ids (trace (call_seq (scripted_env sample_bodies True)
                   [(''vice.ping'', []), (''vice.ping'', [])]
                   (sample_state 3 [Inr (200, ''not-found''), Inr (200, ''pong''),
                                    Inr (200, ''pong'')]))) = [Some 1, Some 2, Some 3]"
proof (rule conjI)
  show "\<exists>ids. post_ids (trace (call_seq (scripted_env sample_bodies True)
                   [(''vice.ping'', []), (''vice.ping'', [])]
                   (sample_state 3 [Inr (200, ''not-found''), Inr (200, ''pong''),
                                    Inr (200, ''pong'')]))) =
            post_ids (trace (sample_state 3 [Inr (200, ''not-found''), Inr (200, ''pong''),
                                    Inr (200, ''pong'')])) @ map Some ids \<and>
          sorted_wrt (<) ids \<and> distinct ids \<and>
          (\<forall>i \<in> set ids.
             id_counter (cl (sample_state 3 [Inr (200, ''not-found''), Inr (200, ''pong''),
                                    Inr (200, ''pong'')])) < i \<and>
             i \<le> id_counter (cl (call_seq (scripted_env sample_bodies True)
                   [(''vice.ping'', []), (''vice.ping'', [])]
                   (sample_state 3 [Inr (200, ''not-found''), Inr (200, ''pong''),
                                    Inr (200, ''pong'')]))))"
    by (rule request_ids_increase)
  show "post_ids (trace (call_seq (scripted_env sample_bodies True)
                   [(''vice.ping'', []), (''vice.ping'', [])]
                   (sample_state 3 [Inr (200, ''not-found''), Inr (200, ''pong''),
                                    Inr (200, ''pong'')]))) = [Some 1, Some 2, Some 3]"
    by (simp add: run_defs sample_defs Let_def validate_params_def TOOL_SCHEMAS_def
        request_id_def range_0_3)
qed

text \<open>
  Claim C8 says that request ids are unique within a process. \<open>_id_counter\<close> is set to 0
  by each \<open>ViceMCPClient.__init__\<close>, so two clients of one process both send the id 1.
\<close>

theorem shared_ids_counterexample:
  "post_ids (trace second_client_run) = [Some 1, Some 1] \<and>
   \<not> distinct (post_ids (trace second_client_run))"
  by (simp add: second_client_run_def first_client_run_def run_defs sample_defs Let_def
      validate_params_def TOOL_SCHEMAS_def request_id_def range_0_3)

end
